theory Spec2Isabelle
  imports Main "HOL-Library.Word" "HOL-Library.Sublist"
begin

unbundle bit_operations_syntax

section \<open>Wide strings and bytes\<close>

text \<open>
  Both programs work on \<^verbatim>\<open>std::wstring\<close>. On Windows \<^verbatim>\<open>wchar_t\<close> is a 16-bit
  code unit, so a wide string is a list of 16-bit words. A wide literal \<^verbatim>\<open>L"..."\<close>
  of the source is written \<open>L ''...''\<close>. Resource names are narrow (\<^verbatim>\<open>LPCSTR\<close>)
  and stay of type \<open>string\<close>.
\<close>

type_synonym wchar = "16 word"
type_synonym wstring = "wchar list"
type_synonym byte = "8 word"

definition L :: "string \<Rightarrow> wstring" where
  "L s = map of_char s"

text \<open>
  The bytes a code unit occupies in memory (little endian, \<^verbatim>\<open>sizeof(wchar_t) = 2\<close>),
  and the code unit read back from two bytes.
\<close>

definition wchar_bytes :: "wchar \<Rightarrow> byte list" where
  "wchar_bytes c = [ucast c, ucast (drop_bit 8 c)]"

definition wchar_of_bytes :: "byte \<Rightarrow> byte \<Rightarrow> wchar" where
  "wchar_of_bytes lo hi = push_bit 8 (ucast hi) OR ucast lo"

text \<open>
  \<^verbatim>\<open>arg.c_str()\<close>: the memory behind a wide string, its code units followed by the
  terminating zero code unit.
\<close>

definition c_str :: "wstring \<Rightarrow> byte list" where
  "c_str s = concat (map wchar_bytes s) @ [0, 0]"

text \<open>
  \<^verbatim>\<open>wstring((LPCWSTR)ptr, n)\<close>: the string of the first \<open>n\<close> code units found at
  \<open>ptr\<close>. The constructor takes the count and does not look for a terminator.
\<close>

fun wstring_of :: "byte list \<Rightarrow> nat \<Rightarrow> wstring" where
  "wstring_of (lo # hi # bs) (Suc n) = wchar_of_bytes lo hi # wstring_of bs n"
| "wstring_of _ _ = []"

section \<open>Log lines\<close>

text \<open>
  \<^verbatim>\<open>LOG(level) << ...\<close> is recorded as the level and the literal text of the line.
  Level 1 is an error and level 2 a warning; a negative level continues the line of
  that level. Of the informational lines (level 3) only the one of
  \<^verbatim>\<open>AddResourceData\<close> is recorded, which tells that a write was made; the other
  informational and the debug lines are left out, as are the values streamed between
  the pieces of literal text, except a resource name. The shim's own lines are not
  recorded. Whether a line is printed is decided in \<^verbatim>\<open>log.h\<close>, which is not among
  the sources, from the level that \<^verbatim>\<open>--debug\<close> sets; the record keeps the calls.
\<close>

type_synonym log_line = "int \<times> string"

section \<open>The resource codec (\<^verbatim>\<open>resource_functions.h\<close>)\<close>

text \<open>
  The \<^verbatim>\<open>RT_RCDATA\<close> resources of one executable: a map from the resource name to the
  bytes stored under it. \<^verbatim>\<open>FindResource\<close> fails exactly on a name that is not in the
  map, and \<^verbatim>\<open>SizeofResource\<close> is the number of bytes stored.
\<close>

type_synonym res_table = "string \<rightharpoonup> byte list"

definition HasResourceData :: "res_table \<Rightarrow> string \<Rightarrow> bool" where
  "HasResourceData tbl name = (case tbl name of None \<Rightarrow> False | Some data \<Rightarrow> True)"

text \<open>
  \<^verbatim>\<open>GetResourceData(name, arg)\<close> returns false and leaves \<open>arg\<close> alone when the
  resource is not found; otherwise it stores
  \<^verbatim>\<open>wstring((LPCWSTR)data_ptr, data_size / sizeof(WCHAR))\<close> and returns true.
  The result \<open>None\<close> is the false return, \<open>Some s\<close> the true return with the string
  stored.
\<close>

definition GetResourceData :: "res_table \<Rightarrow> string \<Rightarrow> wstring option" where
  "GetResourceData tbl name =
     (case tbl name of
        None \<Rightarrow> None
      | Some data \<Rightarrow> Some (wstring_of data (length data div 2)))"

text \<open>
  What the operating system answers to one resource update:
  \<open>update_ok\<close> is the value \<^verbatim>\<open>UpdateResource\<close> returns (false also when
  \<^verbatim>\<open>BeginUpdateResourceW\<close> gave no handle), \<open>commit_ok\<close> whether
  \<^verbatim>\<open>EndUpdateResource\<close> wrote the change to the file. The source reads the first
  and ignores the second.
\<close>

record update_result =
  update_ok :: bool
  commit_ok :: bool

text \<open>
  \<^verbatim>\<open>UpdateResource(h, RT_RCDATA, name, lang, lpData, cbData)\<close> with a non-null
  \<open>lpData\<close>: the first \<open>cbData\<close> bytes at \<open>lpData\<close> become the resource.
\<close>

definition UpdateResource :: "res_table \<Rightarrow> string \<Rightarrow> byte list \<Rightarrow> nat \<Rightarrow> res_table" where
  "UpdateResource tbl name lpData cbData = tbl(name \<mapsto> take cbData lpData)"

text \<open>
  \<^verbatim>\<open>AddResourceData(target, name, arg)\<close> on the resource table of \<open>target\<close>.
  It returns \<open>bUpdate\<close>, the table after \<^verbatim>\<open>EndUpdateResource\<close>, and the line it
  logs.
\<close>

definition AddResourceData ::
  "update_result \<Rightarrow> res_table \<Rightarrow> string \<Rightarrow> wstring \<Rightarrow> bool \<times> res_table \<times> log_line list" where
  "AddResourceData os tbl name arg =
     (let bUpdate = update_ok os;
          lg = (if \<not> bUpdate then [(1, ''Failed to add resource: '' @ name)]
                else [(3, ''Added resource: '' @ name @ '' = '')]);
          tbl' = (if bUpdate \<and> commit_ok os
                  then UpdateResource tbl name (c_str arg) (length arg * 2)
                  else tbl)
      in (bUpdate, tbl', lg))"

section \<open>What both programs ask of the platform\<close>

text \<open>
  The calls into \<^verbatim>\<open>std::filesystem\<close>, and \<^verbatim>\<open>GetExecPath\<close>, \<^verbatim>\<open>UpperCase\<close> and
  \<^verbatim>\<open>NarrowString\<close> of \<^verbatim>\<open>utility_functions.h\<close> (a header that is not among the
  sources), are taken as parameters: every property below holds whatever they
  compute. A path is kept as the wide string it was built from; \<open>path_append a b\<close>
  is \<^verbatim>\<open>a / b\<close>, \<open>thisExecPath\<close> the result of \<^verbatim>\<open>GetExecPath()\<close> and
  \<open>current_path\<close> the one of \<^verbatim>\<open>filesystem::current_path()\<close>.
\<close>

record platform =
  fs_exists :: "wstring \<Rightarrow> bool"
  fs_equivalent :: "wstring \<Rightarrow> wstring \<Rightarrow> bool"
  fs_is_regular_file :: "wstring \<Rightarrow> bool"
  fs_is_directory :: "wstring \<Rightarrow> bool"
  is_relative :: "wstring \<Rightarrow> bool"
  parent_path :: "wstring \<Rightarrow> wstring"
  filename :: "wstring \<Rightarrow> wstring"
  stem :: "wstring \<Rightarrow> wstring"
  path_append :: "wstring \<Rightarrow> wstring \<Rightarrow> wstring"
  weakly_canonical :: "wstring \<Rightarrow> wstring"
  thisExecPath :: wstring
  current_path :: wstring
  UpperCase :: "wstring \<Rightarrow> wstring"
  NarrowString :: "wstring \<Rightarrow> string"

text \<open>
  \<^verbatim>\<open>filesystem::exists(p)\<close>. No file has the empty path, so the call is false on
  it whatever the file system holds.
\<close>

definition exists_path :: "'a platform_scheme \<Rightarrow> wstring \<Rightarrow> bool" where
  "exists_path pf p = (p \<noteq> [] \<and> fs_exists pf p)"

section \<open>The shim (\<^verbatim>\<open>shim.cpp\<close>)\<close>

text \<open>
  The answer of the operating system to \<^verbatim>\<open>CreateProcessW\<close>: the process is
  created, or the call fails with \<^verbatim>\<open>ERROR_ELEVATION_REQUIRED\<close> (then the flag
  is the result of \<^verbatim>\<open>ShellExecuteExW\<close>), or it fails with another error.
\<close>

datatype create_result = Created | ElevationRequired bool | CreateFailed

record shim_env = platform +
  resources :: res_table
  create_process :: create_result
  child_exit_code :: "32 word"

text \<open>
  What \<^verbatim>\<open>ShimMain\<close> has taken from its command line when it reaches the line
  \<^verbatim>\<open>wstring calling_args = CollapseArguments(arg_list)\<close>: the five flags found by
  \<^verbatim>\<open>GetShimArg\<close>, the two overrides, whether an argument matching
  \<^verbatim>\<open>--shim.*\<close> was still there (\<open>shimArgOther\<close>), and the arguments left.
\<close>

record shim_cli =
  shimArgLog :: bool
  shimArgWait :: bool
  shimArgExit :: bool
  isWindowsApp :: bool
  shimArgNoop :: bool
  wdTypeOverride :: wstring
  wdPathOverride :: wstring
  shimArgOther :: bool
  calling_args :: wstring

text \<open>
  The call \<^verbatim>\<open>MakeProcess(appPath, appArgs, working_dir)\<close> together with the wait
  mode \<open>shimArgWait\<close> in force when it is made.
\<close>

record resolved =
  appPath :: wstring
  appArgs :: wstring
  working_dir :: wstring
  wait_mode :: bool

text \<open>
  What \<^verbatim>\<open>MakeProcess\<close> hands to \<^verbatim>\<open>CreateProcessW\<close>, and whether it returns a
  process handle.
\<close>

record process =
  cmd :: wstring
  workingDirectoryCSTR :: "wstring option"
  processHandle :: bool

definition MakeProcess :: "create_result \<Rightarrow> wstring \<Rightarrow> wstring \<Rightarrow> wstring \<Rightarrow> process" where
  "MakeProcess os path args workingDirectory =
     \<lparr> cmd = (if args \<noteq> [] then path @ L '' '' @ args else path),
       workingDirectoryCSTR = (if workingDirectory \<noteq> [] then Some workingDirectory else None),
       processHandle = (case os of Created \<Rightarrow> True
                                | ElevationRequired shell_ok \<Rightarrow> shell_ok
                                | CreateFailed \<Rightarrow> False) \<rparr>"

text \<open>
  How a run of the shim ends: \<^verbatim>\<open>ShowHelp()\<close> (which calls \<^verbatim>\<open>exit(0)\<close>), a
  \<^verbatim>\<open>return exitCode\<close> before anything is resolved, the \<^verbatim>\<open>--shim-NoOp\<close> return
  with everything resolved and nothing started, or the return after
  \<^verbatim>\<open>MakeProcess\<close>.
\<close>

datatype shim_outcome =
    ShowHelp
  | Return "32 word"
  | NoOp resolved "32 word"
  | Launched resolved process "32 word"

fun exit_code :: "shim_outcome \<Rightarrow> 32 word" where
  "exit_code ShowHelp = 0"
| "exit_code (Return c) = c"
| "exit_code (NoOp r c) = c"
| "exit_code (Launched r p c) = c"

fun spawned :: "shim_outcome \<Rightarrow> bool" where
  "spawned (Launched r p c) = True"
| "spawned _ = False"

text \<open>Line 401: the shim waits for the child when there is a handle and the mode is to wait.\<close>

fun waits_for_child :: "shim_outcome \<Rightarrow> bool" where
  "waits_for_child (Launched r p c) = (processHandle p \<and> wait_mode r)"
| "waits_for_child _ = False"

text \<open>Lines 322 to 324: the wait mode used from there on.\<close>

definition effective_wait :: "wstring \<Rightarrow> bool \<Rightarrow> bool \<Rightarrow> bool" where
  "effective_wait shimType argWait argExit =
     (if shimType = L ''CONSOLE'' then \<not> argExit else argWait)"

text \<open>Lines 357 to 360: the embedded arguments, then the caller's.\<close>

definition combine_args :: "wstring \<Rightarrow> wstring \<Rightarrow> wstring" where
  "combine_args embedded calling =
     (if calling \<noteq> [] \<and> embedded \<noteq> [] then embedded @ L '' '' else embedded) @ calling"

text \<open>Lines 362 to 376: the working directory.\<close>

definition select_working_dir ::
  "wstring \<Rightarrow> wstring \<Rightarrow> wstring \<Rightarrow> wstring \<Rightarrow> wstring \<Rightarrow> wstring" where
  "select_working_dir wdType wdPath curr_dir app_dir shim_dir =
     (if wdType \<noteq> [] then
        (if wdType = L ''CMD'' then curr_dir
         else if wdType = L ''APP'' then app_dir
         else if wdType = L ''SHIM'' then shim_dir
         else if wdType = L ''PATH'' then (if wdPath = [] then shim_dir else wdPath)
         else shim_dir)
      else shim_dir)"

text \<open>
  A resource that is read into a variable initialised to \<^verbatim>\<open>L""\<close>, the result of
  the read being ignored.
\<close>

definition resource_or_empty :: "res_table \<Rightarrow> string \<Rightarrow> wstring" where
  "resource_or_empty tbl name = (case GetResourceData tbl name of None \<Rightarrow> [] | Some v \<Rightarrow> v)"

text \<open>Lines 310 to 320: the embedded working-directory settings and their overrides.\<close>

definition resolve_wdType :: "shim_env \<Rightarrow> shim_cli \<Rightarrow> wstring" where
  "resolve_wdType env cli =
     (if wdTypeOverride cli \<noteq> [] then UpperCase env (wdTypeOverride cli)
      else resource_or_empty (resources env) ''WD_TYPE'')"

definition resolve_wdPath :: "shim_env \<Rightarrow> shim_cli \<Rightarrow> wstring" where
  "resolve_wdPath env cli =
     (if wdPathOverride cli \<noteq> [] then wdPathOverride cli
      else resource_or_empty (resources env) ''WD_PATH'')"

text \<open>
  \<^verbatim>\<open>ShimMain\<close> from line 229 on. \<open>exitCode\<close> starts as 1.
\<close>

definition ShimMain :: "shim_env \<Rightarrow> shim_cli \<Rightarrow> shim_outcome" where
  "ShimMain env cli =
     (if shimArgOther cli then ShowHelp
      else
        let argExit = (shimArgExit cli \<or> isWindowsApp cli) in
        if argExit \<and> shimArgWait cli then Return 1
        else
          case GetResourceData (resources env) ''SHIM_PATH'' of
            None \<Rightarrow> Return 1
          | Some path \<Rightarrow>
              if \<not> exists_path env path then Return 1
              else if fs_equivalent env (thisExecPath env) path then Return 1
              else
                let shimDir = parent_path env (thisExecPath env);
                    appDir = parent_path env path;
                    embedded = resource_or_empty (resources env) ''SHIM_ARGS'';
                    shimType = resource_or_empty (resources env) ''SHIM_TYPE'';
                    wdType = resolve_wdType env cli;
                    wdPath = resolve_wdPath env cli;
                    r = \<lparr> appPath = path,
                          appArgs = combine_args embedded (calling_args cli),
                          working_dir = select_working_dir wdType wdPath (current_path env) appDir shimDir,
                          wait_mode = effective_wait shimType (shimArgWait cli) argExit \<rparr>
                in
                  if shimArgNoop cli then NoOp r 0
                  else
                    let p = MakeProcess (create_process env) (appPath r) (appArgs r) (working_dir r)
                    in Launched r p
                         (if processHandle p \<and> wait_mode r then child_exit_code env
                          else if processHandle p then 0 else 1))"

section \<open>Reading the command line (\<^verbatim>\<open>get_argument.h\<close>)\<close>

text \<open>
  The patterns the two programs pass to \<^verbatim>\<open>GetArgument\<close> are regular expressions.
  A pattern is kept as its syntax tree: \<open>Str s\<close> is the literal text \<open>s\<close>,
  \<open>Range a b\<close> the class \<^verbatim>\<open>[a-b]\<close>, \<open>Dot\<close> the wildcard, \<open>Star\<close> the
  repetition.
\<close>

datatype rexp =
    Null
  | Eps
  | Sym wchar
  | Range wchar wchar
  | Dot
  | Seq rexp rexp
  | Alt rexp rexp
  | Star rexp

fun Str :: "wstring \<Rightarrow> rexp" where
  "Str [] = Eps"
| "Str (c # cs) = Seq (Sym c) (Str cs)"

text \<open>
  Modelled from the spec: \<^verbatim>\<open>get_argument.h\<close> is not among the sources. The spec
  has the flags matched without regard to case; \<open>towlower\<close> folds the letters A to Z.
\<close>

definition towlower :: "wchar \<Rightarrow> wchar" where
  "towlower c = (if 0x41 \<le> c \<and> c \<le> 0x5A then c + 0x20 else c)"

text \<open>
  Modelled from the spec: \<^verbatim>\<open>get_argument.h\<close> is not among the sources. Whether
  a pattern matches the empty text.
\<close>

fun nullable :: "rexp \<Rightarrow> bool" where
  "nullable Null = False"
| "nullable Eps = True"
| "nullable (Sym a) = False"
| "nullable (Range a b) = False"
| "nullable Dot = False"
| "nullable (Seq r s) = (nullable r \<and> nullable s)"
| "nullable (Alt r s) = (nullable r \<or> nullable s)"
| "nullable (Star r) = True"

text \<open>
  Modelled from the spec: \<^verbatim>\<open>get_argument.h\<close> is not among the sources. What is
  left of a pattern once it has read the code unit \<open>c\<close>, letters compared after
  folding.
\<close>

fun after_char :: "wchar \<Rightarrow> rexp \<Rightarrow> rexp" where
  "after_char c Null = Null"
| "after_char c Eps = Null"
| "after_char c (Sym a) = (if towlower c = towlower a then Eps else Null)"
| "after_char c (Range a b) = (if a \<le> towlower c \<and> towlower c \<le> b then Eps else Null)"
| "after_char c Dot = Eps"
| "after_char c (Seq r s) =
     (if nullable r then Alt (Seq (after_char c r) s) (after_char c s)
      else Seq (after_char c r) s)"
| "after_char c (Alt r s) = Alt (after_char c r) (after_char c s)"
| "after_char c (Star r) = Seq (after_char c r) (Star r)"

text \<open>
  Modelled from the spec: \<^verbatim>\<open>get_argument.h\<close> is not among the sources. An
  argument matches a pattern when the pattern covers the whole argument.
\<close>

fun arg_matches :: "rexp \<Rightarrow> wstring \<Rightarrow> bool" where
  "arg_matches r [] = nullable r"
| "arg_matches r (c # cs) = arg_matches (after_char c r) cs"

text \<open>
  Modelled from the spec: \<^verbatim>\<open>get_argument.h\<close> is not among the sources.
  \<^verbatim>\<open>GetArgument(args, pattern)\<close> looks for a flag: the first argument that matches
  is taken out of the list, and the call tells whether there was one.
\<close>

fun GetArgument :: "wstring list \<Rightarrow> rexp \<Rightarrow> bool \<times> wstring list" where
  "GetArgument [] pat = (False, [])"
| "GetArgument (a # rest) pat =
     (if arg_matches pat a then (True, rest)
      else (fst (GetArgument rest pat), a # snd (GetArgument rest pat)))"

text \<open>
  Modelled from the spec: \<^verbatim>\<open>get_argument.h\<close> is not among the sources. The text
  before and after the first equals sign of an argument.
\<close>

fun split_equals :: "wstring \<Rightarrow> (wstring \<times> wstring) option" where
  "split_equals [] = None"
| "split_equals (c # cs) =
     (if c = 0x3D then Some ([], cs)
      else (case split_equals cs of None \<Rightarrow> None | Some (n, v) \<Rightarrow> Some (c # n, v)))"

text \<open>
  Modelled from the spec: \<^verbatim>\<open>get_argument.h\<close> is not among the sources.
  \<^verbatim>\<open>GetArgument(args, pattern, value)\<close> looks for a flag with a value, written
  \<^verbatim>\<open>--name=value\<close> or \<^verbatim>\<open>--name value\<close>; what it finds is taken out of the list.
  \<open>None\<close> leaves the variable as it was. A flag with nothing after it stays in the
  list.
\<close>

fun GetArgumentValue :: "wstring list \<Rightarrow> rexp \<Rightarrow> wstring option \<times> wstring list" where
  "GetArgumentValue [] pat = (None, [])"
| "GetArgumentValue [a] pat =
     (case split_equals a of
        Some (n, v) \<Rightarrow> if arg_matches pat n then (Some v, []) else (None, [a])
      | None \<Rightarrow> (None, [a]))"
| "GetArgumentValue (a # b # rest) pat =
     (case split_equals a of
        Some (n, v) \<Rightarrow>
          if arg_matches pat n then (Some v, b # rest)
          else (fst (GetArgumentValue (b # rest) pat), a # snd (GetArgumentValue (b # rest) pat))
      | None \<Rightarrow>
          if arg_matches pat a then (Some b, rest)
          else (fst (GetArgumentValue (b # rest) pat), a # snd (GetArgumentValue (b # rest) pat)))"

text \<open>
  Modelled from the spec: \<^verbatim>\<open>get_argument.h\<close> is not among the sources.
  \<^verbatim>\<open>GetArgument(args, 0, value)\<close> takes the first argument out of the list.
\<close>

fun GetArgumentAt0 :: "wstring list \<Rightarrow> wstring option \<times> wstring list" where
  "GetArgumentAt0 [] = (None, [])"
| "GetArgumentAt0 (a # rest) = (Some a, rest)"

text \<open>
  Modelled from the spec: \<^verbatim>\<open>get_argument.h\<close> is not among the sources.
  \<^verbatim>\<open>CollapseArguments\<close> joins the arguments in their order, one space between two.
\<close>

fun CollapseArguments :: "wstring list \<Rightarrow> wstring" where
  "CollapseArguments [] = []"
| "CollapseArguments [a] = a"
| "CollapseArguments (a # b # rest) = a @ L '' '' @ CollapseArguments (b # rest)"

text \<open>
  \<^verbatim>\<open>GetShimArg\<close> of \<^verbatim>\<open>shim.cpp\<close>: the pattern
  \<^verbatim>\<open>--shim[a-z]*-\<close>, then the letter asked for, then \<^verbatim>\<open>[a-z]*\<close>.
\<close>

definition GetShimArg :: "wstring list \<Rightarrow> wstring \<Rightarrow> bool \<times> wstring list" where
  "GetShimArg args pattern =
     GetArgument args
       (Seq (Str (L ''--shim''))
         (Seq (Seq (Star (Range 0x61 0x7A)) (Str (L ''-'')))
           (Seq (Str pattern) (Star (Range 0x61 0x7A)))))"

text \<open>
  Lines 214 to 233 of \<^verbatim>\<open>ShimMain\<close>: the argument list, as
  \<^verbatim>\<open>ParseArguments\<close> made it from the command line, is read into the flags, the
  overrides and the arguments left for the target. The second component is the
  list left, whose collapse is \<open>calling_args\<close>.
\<close>

definition ShimArguments :: "wstring list \<Rightarrow> shim_cli \<times> wstring list" where
  "ShimArguments arg_list =
     (let a0 = snd (GetArgumentAt0 arg_list);
          l = GetShimArg a0 (L ''l'');
          w = GetShimArg (snd l) (L ''w'');
          e = GetShimArg (snd w) (L ''e'');
          g = GetShimArg (snd e) (L ''g'');
          n = GetShimArg (snd g) (L ''n'');
          t = GetArgumentValue (snd n) (Str (L ''--shim-wdtype''));
          p = GetArgumentValue (snd t) (Str (L ''--shim-wdpath''));
          h = GetArgument (snd p) (Seq (Str (L ''--shim'')) (Star Dot))
      in (\<lparr> shimArgLog = fst l, shimArgWait = fst w, shimArgExit = fst e,
            isWindowsApp = fst g, shimArgNoop = fst n,
            wdTypeOverride = (case fst t of None \<Rightarrow> [] | Some v \<Rightarrow> v),
            wdPathOverride = (case fst p of None \<Rightarrow> [] | Some v \<Rightarrow> v),
            shimArgOther = fst h,
            calling_args = CollapseArguments (snd h) \<rparr>, snd h))"

text \<open>
  The command line of the claim, in its words: the target path, the embedded
  arguments and the forwarded arguments, the empty ones dropped, one space between
  two.
\<close>

definition spec_command_line :: "wstring \<Rightarrow> wstring \<Rightarrow> wstring \<Rightarrow> wstring" where
  "spec_command_line target embedded forwarded =
     CollapseArguments (filter (\<lambda>part. part \<noteq> []) [target, embedded, forwarded])"

section \<open>The generator (\<^verbatim>\<open>shim_executable.cpp\<close>)\<close>

text \<open>
  What the generator asks of the operating system beyond the file system: the
  executable type \<^verbatim>\<open>SHGetFileInfoW\<close> reports for a file, the generator's own
  \<^verbatim>\<open>RT_RCDATA\<close> resources (the shim templates), whether \<^verbatim>\<open>CreateFileW\<close>
  succeeds on a path, the \<^verbatim>\<open>RT_RCDATA\<close> table of a template once unpacked,
  whether \<^verbatim>\<open>LoadLibraryExW\<close> and \<^verbatim>\<open>FreeLibrary\<close> succeed, and the answer to
  the update of each resource slot.
\<close>

record gen_env = platform +
  exe_type :: "wstring \<Rightarrow> 32 word"
  own_resources :: res_table
  create_file :: "wstring \<Rightarrow> bool"
  template_table :: "string \<Rightarrow> res_table"
  load_library :: "wstring \<Rightarrow> bool"
  free_library :: bool
  update_answer :: "string \<Rightarrow> update_result"

text \<open>
  The variables of \<^verbatim>\<open>wmain\<close> at line 353, when the command line has been read
  (by \<^verbatim>\<open>GetArgument\<close>, \<^verbatim>\<open>ReparseArguments\<close>, \<^verbatim>\<open>TrimQuotes\<close> and
  \<^verbatim>\<open>UnquoteString\<close>, all in headers that are not among the sources): whether the
  help, \<^verbatim>\<open>--gui\<close>, \<^verbatim>\<open>--console\<close> and \<^verbatim>\<open>--debug\<close> flags were found, the six
  strings, and the collapse of the arguments left over.
\<close>

record gen_cli =
  cli_help :: bool
  cli_gui :: bool
  cli_console :: bool
  cli_debug :: bool
  cli_input :: wstring
  cli_output :: wstring
  cli_icon :: wstring
  cli_command_args :: wstring
  cli_wd_type :: wstring
  cli_wd_path :: wstring
  cli_rest :: wstring

record built =
  built_output :: wstring
  built_input :: wstring
  built_type :: wstring
  built_table :: res_table

text \<open>
  How a run of the generator ends: \<^verbatim>\<open>ShowHelp\<close> (which calls \<^verbatim>\<open>exit(0)\<close>), a
  \<^verbatim>\<open>return exitcode\<close> before the shim is written, or the \<^verbatim>\<open>return exitcode\<close>
  of the last line, the shim unpacked and its resources written.
\<close>

datatype gen_outcome =
    HelpShown
  | Stopped int "log_line list"
  | Built int "log_line list" built

fun gen_exit_code :: "gen_outcome \<Rightarrow> int" where
  "gen_exit_code HelpShown = 0"
| "gen_exit_code (Stopped c lg) = c"
| "gen_exit_code (Built c lg b) = c"

fun gen_log :: "gen_outcome \<Rightarrow> log_line list" where
  "gen_log HelpShown = []"
| "gen_log (Stopped c lg) = lg"
| "gen_log (Built c lg b) = lg"



definition HIWORD :: "32 word \<Rightarrow> 16 word" where
  "HIWORD x = ucast (drop_bit 16 x)"

definition GetResourceFile :: "res_table \<Rightarrow> (wstring \<Rightarrow> bool) \<Rightarrow> string \<Rightarrow> wstring \<Rightarrow> bool" where
  "GetResourceFile tbl create name path =
     (case tbl name of None \<Rightarrow> False | Some data \<Rightarrow> create path)"

definition UnpackShim :: "gen_env \<Rightarrow> wstring \<Rightarrow> wstring \<Rightarrow> bool" where
  "UnpackShim env path shim_type =
     GetResourceFile (own_resources env) (create_file env)
       (''SHIM_'' @ NarrowString env shim_type) path"

text \<open>
  \<^verbatim>\<open>CopyResources\<close> copies icon and version resources only, so the
  \<^verbatim>\<open>RT_RCDATA\<close> table of the target stays as it is; its result and its lines
  remain.
\<close>

definition CopyResources :: "bool \<Rightarrow> bool \<Rightarrow> bool \<times> log_line list" where
  "CopyResources load_ok free_ok =
     (if \<not> load_ok then (False, [(1, ''Could not open '')])
      else if \<not> free_ok then (False, [(2, ''Could not free application library'')])
      else (True, []))"

text \<open>Lines 289 to 292 and 308 to 321: the shim type asked for on the command line.\<close>

definition flag_shim_type :: "bool \<Rightarrow> bool \<Rightarrow> bool \<Rightarrow> wstring \<times> log_line list" where
  "flag_shim_type is_shimgen gui console =
     (let shim_type = (if gui then L ''GUI'' else [])
      in if \<not> is_shimgen \<and> console then
           (if shim_type = [] then (L ''CONSOLE'', [])
            else (shim_type, [(2, ''CONSOLE and GUI flags cannot be used together,''),
                              (- 2, ''assuming GUI was intended'')]))
         else (shim_type, []))"

text \<open>
  Lines 383 to 433: the two paths expanded. \<open>Inl\<close> is the \<^verbatim>\<open>return exitcode\<close>
  with the lines logged, \<open>Inr\<close> carries \<open>input_path\<close>, \<open>output_path\<close> and the
  lines logged.
\<close>

definition expand_paths ::
  "'a platform_scheme \<Rightarrow> bool \<Rightarrow> wstring \<Rightarrow> wstring
     \<Rightarrow> log_line list + (wstring \<times> wstring \<times> log_line list)" where
  "expand_paths pf is_shimgen inp outp =
     (let exec_dir = parent_path pf (thisExecPath pf);
          curr_dir = current_path pf
      in
        if is_shimgen then
          (if outp = [] then Inl [(1, ''OUTPUT path must be specified.'')]
           else
             let output_path =
                   (if is_relative pf outp
                    then weakly_canonical pf (path_append pf exec_dir outp) else outp);
                 input_path =
                   (if is_relative pf inp
                    then weakly_canonical pf (path_append pf (parent_path pf output_path) inp)
                    else inp)
             in Inr (input_path, output_path, []))
        else
          let input_path =
                (if is_relative pf inp
                 then weakly_canonical pf (path_append pf curr_dir inp) else inp);
              output_path = (if outp = [] then curr_dir else outp);
              lg = (if outp = []
                    then [(2, ''OUTPUT path was not specified, using CURRENT path'')] else []);
              output_path =
                (if is_relative pf output_path
                 then weakly_canonical pf (path_append pf curr_dir output_path)
                 else output_path)
          in Inr (input_path, output_path, lg))"

text \<open>Lines 437 to 456: the source file checked; \<open>Inr\<close> carries \<open>execType\<close>.\<close>

definition check_source :: "gen_env \<Rightarrow> wstring \<Rightarrow> log_line list + 32 word" where
  "check_source env input_path =
     (if \<not> exists_path env input_path then Inl [(1, ''SOURCE path, , does not exist'')]
      else if \<not> fs_is_regular_file env input_path
      then Inl [(1, ''SOURCE, , must be a regular file'')]
      else if exe_type env input_path = 0
      then Inl [(1, ''SOURCE, , must be an executable'')]
      else Inr (exe_type env input_path))"

text \<open>Lines 473 to 506: the output path checked; \<open>Inr\<close> carries \<open>output_path\<close>.\<close>

definition check_output ::
  "gen_env \<Rightarrow> wstring \<Rightarrow> wstring \<Rightarrow> log_line list + (wstring \<times> log_line list)" where
  "check_output env input_path outp =
     (let output_path =
            (if fs_is_directory env outp
             then path_append env outp (filename env input_path) else outp);
          lg = (if fs_is_directory env outp
                then [(2, ''OUTPUT filename not specified, using '')] else [])
      in
        if \<not> fs_is_directory env (parent_path env output_path)
        then Inl (lg @ [(1, ''OUTPUT directory, , does not exist'')])
        else if exists_path env output_path then
          (if fs_equivalent env output_path input_path
           then Inl (lg @ [(1, ''Cannot overwrite SOURCE.''),
                           (- 1, ''Choose a different filename or directory'')])
           else if \<not> fs_is_regular_file env output_path
           then Inl (lg @ [(1, ''OUTPUT already exists but is not a regular file.''),
                           (- 1, ''Choose a different filename or directory'')])
           else Inr (output_path, lg @ [(2, ''OUTPUT already exists and will be overwritten.'')]))
        else Inr (output_path, lg))"

text \<open>Lines 513 to 525: the shim type, as asked for or after the type of the source.\<close>

definition select_shim_type :: "wstring \<Rightarrow> 32 word \<Rightarrow> wstring" where
  "select_shim_type shim_type execType =
     (if shim_type = [] then (if HIWORD execType \<noteq> 0 then L ''GUI'' else L ''CONSOLE'')
      else shim_type)"

text \<open>Lines 527 to 536: the working-directory type; \<open>Inr\<close> carries \<open>wd_type\<close>.\<close>

definition select_wd_type ::
  "'a platform_scheme \<Rightarrow> wstring \<Rightarrow> wstring \<Rightarrow> wstring
     \<Rightarrow> log_line list + (wstring \<times> log_line list)" where
  "select_wd_type pf shim_type wdt wd_path =
     (let wd_type =
            UpperCase pf (if wdt = [] then (if shim_type = L ''CONSOLE'' then L ''CMD'' else L ''APP'')
                          else wdt)
      in
        if wd_type \<noteq> L ''CMD'' \<and> wd_type \<noteq> L ''APP'' \<and> wd_type \<noteq> L ''SHIM'' \<and> wd_type \<noteq> L ''PATH''
        then Inl [(1, ''WD_TYPE must be CMD, APP, SHIM, or PATH (got )'')]
        else Inr (wd_type,
                  if wd_type = L ''PATH'' \<and> wd_path = []
                  then [(2, ''WD_TYPE is PATH but WD_PATH is empty; shim will use shim directory'')]
                  else []))"

text \<open>
  Lines 567 to 574: the resource writes. Each \<^verbatim>\<open>AddResourceData\<close> is a statement
  of its own; its result is not read.
\<close>

definition write_resources ::
  "(string \<Rightarrow> update_result) \<Rightarrow> res_table \<Rightarrow> wstring \<Rightarrow> wstring \<Rightarrow> wstring \<Rightarrow> wstring \<Rightarrow> wstring
     \<Rightarrow> res_table \<times> log_line list" where
  "write_resources os t0 input_path shim_type wd_type wd_path command_args =
     (let r1 = AddResourceData (os ''SHIM_PATH'') t0 ''SHIM_PATH'' input_path;
          r2 = AddResourceData (os ''SHIM_TYPE'') (fst (snd r1)) ''SHIM_TYPE'' shim_type;
          r3 = AddResourceData (os ''WD_TYPE'') (fst (snd r2)) ''WD_TYPE'' wd_type;
          r4 = (if wd_type = L ''PATH'' \<and> wd_path \<noteq> []
                then snd (AddResourceData (os ''WD_PATH'') (fst (snd r3)) ''WD_PATH'' wd_path)
                else (fst (snd r3), []));
          r5 = (if command_args \<noteq> []
                then snd (AddResourceData (os ''SHIM_ARGS'') (fst r4) ''SHIM_ARGS'' command_args)
                else (fst r4, []))
      in (fst r5, snd (snd r1) @ snd (snd r2) @ snd (snd r3) @ snd r4 @ snd r5))"

text \<open>
  Lines 509 to 579, from the shim type on: the type and the working directory
  chosen, the shim unpacked, the resources copied and written.
\<close>

definition build_shim ::
  "gen_env \<Rightarrow> int \<Rightarrow> log_line list \<Rightarrow> wstring \<Rightarrow> gen_cli \<Rightarrow> wstring \<Rightarrow> wstring \<Rightarrow> 32 word
     \<Rightarrow> gen_outcome" where
  "build_shim env exitcode lg flag_type cli input_path output_path execType =
     (let shim_type = select_shim_type flag_type execType in
      case select_wd_type env shim_type (cli_wd_type cli) (cli_wd_path cli) of
        Inl e \<Rightarrow> Stopped exitcode (lg @ e)
      | Inr (wd_type, lgw) \<Rightarrow>
          let lgi = (if cli_icon cli \<noteq> []
                     then [(2, ''Specifying alternative icon not implemented, ignoring'')]
                     else [])
          in
            if \<not> UnpackShim env output_path shim_type
            then Stopped exitcode (lg @ lgw @ lgi @ [(1, ''Could not unpack shim'')])
            else
              let lgc = snd (CopyResources (load_library env input_path) (free_library env));
                  w = write_resources (update_answer env)
                        (template_table env (''SHIM_'' @ NarrowString env shim_type))
                        input_path shim_type wd_type (cli_wd_path cli) (cli_command_args cli)
              in Built exitcode
                   (lg @ lgw @ lgi @ lgc @ snd w @ [(0, '' has successfully created '')])
                   \<lparr> built_output = output_path, built_input = input_path,
                     built_type = shim_type, built_table = fst w \<rparr>)"

text \<open>
  Lines 437 to 579: the source and the output checked at the expanded paths, then
  the shim built.
\<close>

definition validate_and_build ::
  "gen_env \<Rightarrow> int \<Rightarrow> log_line list \<Rightarrow> wstring \<Rightarrow> gen_cli \<Rightarrow> wstring \<Rightarrow> wstring
     \<Rightarrow> gen_outcome" where
  "validate_and_build env exitcode lg flag_type cli input_path outp =
     (case check_source env input_path of
        Inl e \<Rightarrow> Stopped exitcode (lg @ e)
      | Inr execType \<Rightarrow>
          (case check_output env input_path outp of
             Inl e \<Rightarrow> Stopped exitcode (lg @ e)
           | Inr (output_path, lgo) \<Rightarrow>
               build_shim env exitcode (lg @ lgo) flag_type cli
                 input_path output_path execType))"

text \<open>Lines 374 to 433: the source required and the paths expanded; then the rest.\<close>

definition generate ::
  "gen_env \<Rightarrow> int \<Rightarrow> bool \<Rightarrow> log_line list \<Rightarrow> wstring \<Rightarrow> gen_cli \<Rightarrow> gen_outcome" where
  "generate env exitcode is_shimgen lg flag_type cli =
     (if cli_input cli = [] then Stopped exitcode (lg @ [(1, ''SOURCE executable must be specified.'')])
      else
        case expand_paths env is_shimgen (cli_input cli) (cli_output cli) of
          Inl e \<Rightarrow> Stopped exitcode (lg @ e)
        | Inr (input_path, outp, lge) \<Rightarrow>
            validate_and_build env exitcode (lg @ lge) flag_type cli input_path outp)"

text \<open>
  \<^verbatim>\<open>wmain\<close> of the generator. \<open>exitcode\<close> is set to 1 in its first line and is the
  value of every \<^verbatim>\<open>return\<close>.
\<close>

definition wmain :: "gen_env \<Rightarrow> gen_cli \<Rightarrow> gen_outcome" where
  "wmain env cli =
     (let exitcode = 1;
          exec_name = UpperCase env (stem env (thisExecPath env));
          is_shimgen = (exec_name = L ''SHIMGEN'')
      in
        if cli_help cli then HelpShown
        else
          let ft = flag_shim_type is_shimgen (cli_gui cli) (cli_console cli);
              lgr = (if cli_rest cli \<noteq> []
                     then [(2, ''Additional arguments ignored: ''), (- 2, [])] else [])
          in generate env exitcode is_shimgen (snd ft @ lgr) (fst ft) cli)"

section \<open>An example installation\<close>

text \<open>
  A small concrete platform on which the definitions can be run: paths are written
  with forward slashes, a path is absolute when its second code unit is a colon,
  the parent of a path is what precedes its last slash, and the only files are the
  generator \<^verbatim>\<open>C:/Tools/shim_exec.exe\<close> and the application
  \<^verbatim>\<open>C:/App/app.exe\<close>, in the directories \<^verbatim>\<open>C:/Tools\<close>, \<^verbatim>\<open>C:/App\<close> and
  \<^verbatim>\<open>C:/Out\<close>.
\<close>

definition ex_parent_path :: "wstring \<Rightarrow> wstring" where
  "ex_parent_path p = rev (drop 1 (dropWhile (\<lambda>c. c \<noteq> 0x2F) (rev p)))"

definition ex_filename :: "wstring \<Rightarrow> wstring" where
  "ex_filename p = rev (takeWhile (\<lambda>c. c \<noteq> 0x2F) (rev p))"

definition ex_stem :: "wstring \<Rightarrow> wstring" where
  "ex_stem p = takeWhile (\<lambda>c. c \<noteq> 0x2E) (ex_filename p)"

definition ex_is_relative :: "wstring \<Rightarrow> bool" where
  "ex_is_relative p = (case p of a # b # rest \<Rightarrow> b \<noteq> 0x3A | _ \<Rightarrow> True)"

definition ex_UpperCase :: "wstring \<Rightarrow> wstring" where
  "ex_UpperCase s = map (\<lambda>c. if 0x61 \<le> c \<and> c \<le> 0x7A then c - 0x20 else c) s"

definition ex_NarrowString :: "wstring \<Rightarrow> string" where
  "ex_NarrowString s = map (\<lambda>c. char_of (unat c)) s"

definition ex_files :: "wstring list" where
  "ex_files = [L ''C:/Tools/shim_exec.exe'', L ''C:/App/app.exe'']"

definition ex_dirs :: "wstring list" where
  "ex_dirs = [L ''C:/Tools'', L ''C:/App'', L ''C:/Out'']"

text \<open>
  The shim \<^verbatim>\<open>C:/Out/app.exe\<close> with the resource table \<open>tbl\<close>, started from
  \<^verbatim>\<open>C:/Work\<close>; the target starts and ends with exit code 7.
\<close>

definition ex_shim_env :: "res_table \<Rightarrow> shim_env" where
  "ex_shim_env tbl =
     \<lparr> fs_exists = (\<lambda>p. p \<in> set (L ''C:/Out/app.exe'' # ex_files @ ex_dirs)),
       fs_equivalent = (\<lambda>p q. p = q),
       fs_is_regular_file = (\<lambda>p. p \<in> set (L ''C:/Out/app.exe'' # ex_files)),
       fs_is_directory = (\<lambda>p. p \<in> set ex_dirs),
       is_relative = ex_is_relative,
       parent_path = ex_parent_path,
       filename = ex_filename,
       stem = ex_stem,
       path_append = (\<lambda>a b. a @ L ''/'' @ b),
       weakly_canonical = (\<lambda>p. p),
       thisExecPath = L ''C:/Out/app.exe'',
       current_path = L ''C:/Work'',
       UpperCase = ex_UpperCase,
       NarrowString = ex_NarrowString,
       resources = tbl,
       create_process = Created,
       child_exit_code = 7 \<rparr>"

text \<open>A resource table holding the string \<open>s\<close> under \<open>name\<close>, as a write stores it.\<close>

definition with_resource :: "res_table \<Rightarrow> string \<Rightarrow> wstring \<Rightarrow> res_table" where
  "with_resource tbl name s = UpdateResource tbl name (c_str s) (length s * 2)"

definition ex_resources :: res_table where
  "ex_resources =
     with_resource (with_resource (with_resource (with_resource Map.empty
       ''SHIM_PATH'' (L ''C:/App/app.exe''))
       ''SHIM_TYPE'' (L ''CONSOLE''))
       ''WD_TYPE'' (L ''CMD''))
       ''SHIM_ARGS'' (L ''--flag1'')"

text \<open>
  The generator \<^verbatim>\<open>C:/Tools/shim_exec.exe\<close> run in \<^verbatim>\<open>C:/Work\<close>; the application is
  a console program, both templates are there, and every resource update succeeds.
\<close>

definition ex_gen_env :: gen_env where
  "ex_gen_env =
     \<lparr> fs_exists = (\<lambda>p. p \<in> set (ex_files @ ex_dirs)),
       fs_equivalent = (\<lambda>p q. p = q),
       fs_is_regular_file = (\<lambda>p. p \<in> set ex_files),
       fs_is_directory = (\<lambda>p. p \<in> set ex_dirs),
       is_relative = ex_is_relative,
       parent_path = ex_parent_path,
       filename = ex_filename,
       stem = ex_stem,
       path_append = (\<lambda>a b. a @ L ''/'' @ b),
       weakly_canonical = (\<lambda>p. p),
       thisExecPath = L ''C:/Tools/shim_exec.exe'',
       current_path = L ''C:/Work'',
       UpperCase = ex_UpperCase,
       NarrowString = ex_NarrowString,
       exe_type = (\<lambda>p. 0x4550),
       own_resources = [''SHIM_GUI'' \<mapsto> [], ''SHIM_CONSOLE'' \<mapsto> []],
       create_file = (\<lambda>p. True),
       template_table = (\<lambda>n. Map.empty),
       load_library = (\<lambda>p. True),
       free_library = True,
       update_answer = (\<lambda>n. \<lparr>update_ok = True, commit_ok = True\<rparr>) \<rparr>"

text \<open>
  The command line
  \<^verbatim>\<open>shim_exec C:/App/app.exe C:/Out/app.exe --command="--flag1"\<close> as read.
\<close>

definition ex_gen_cli :: gen_cli where
  "ex_gen_cli =
     \<lparr> cli_help = False, cli_gui = False, cli_console = False, cli_debug = False,
       cli_input = L ''C:/App/app.exe'', cli_output = L ''C:/Out/app.exe'',
       cli_icon = [], cli_command_args = L ''--flag1'',
       cli_wd_type = [], cli_wd_path = [], cli_rest = [] \<rparr>"

text \<open>The same generator under the name \<^verbatim>\<open>shimgen.exe\<close>, which makes the run a legacy one.\<close>

definition ex_legacy_env :: gen_env where
  "ex_legacy_env = ex_gen_env\<lparr>thisExecPath := L ''C:/Tools/shimgen.exe''\<rparr>"


text \<open>
  The generator run in \<^verbatim>\<open>C:\<close>, from where \<^verbatim>\<open>App/app.exe\<close> and
  \<^verbatim>\<open>Out/app.exe\<close> are relative paths to the application and to the shim; and run
  in \<^verbatim>\<open>C:/Out\<close>.
\<close>

definition ex_root_env :: gen_env where
  "ex_root_env = ex_gen_env\<lparr>current_path := L ''C:''\<rparr>"

definition ex_out_env :: gen_env where
  "ex_out_env = ex_gen_env\<lparr>current_path := L ''C:/Out''\<rparr>"


section \<open>Properties of the codec\<close>

lemma wchar_of_bytes_wchar_bytes:
  "wchar_of_bytes (ucast c) (ucast (drop_bit 8 c)) = c"
  unfolding wchar_of_bytes_def
  by (rule bit_word_eqI) (auto simp: bit_simps)

lemma wstring_of_bytes_append:
  "wstring_of (concat (map wchar_bytes s) @ rest) (length s) = s"
  by (induction s) (simp_all add: wchar_bytes_def wchar_of_bytes_wchar_bytes)

lemma length_concat_wchar_bytes:
  "length (concat (map wchar_bytes s)) = length s * 2"
  by (induction s) (simp_all add: wchar_bytes_def)

lemma take_c_str:
  "take (length s * 2) (c_str s) = concat (map wchar_bytes s)"
  by (simp add: c_str_def length_concat_wchar_bytes)

lemma wstring_of_concat:
  "wstring_of (concat (map wchar_bytes s)) (length s) = s"
  using wstring_of_bytes_append [of s "[]"] by simp

lemma GetResourceData_AddResourceData:
  "update_ok os \<Longrightarrow> commit_ok os \<Longrightarrow>
   GetResourceData (fst (snd (AddResourceData os tbl name s))) name = Some s"
  by (simp add: AddResourceData_def GetResourceData_def UpdateResource_def
        take_c_str length_concat_wchar_bytes wstring_of_concat)

text \<open>
  C2. A string written to a slot by \<open>AddResourceData\<close> (the update reported and
  committed) is read back from that slot by \<open>GetResourceData\<close> unchanged, whatever
  the string, zero code units included: the reader takes the recorded size in bytes
  divided by two as the length. A slot that was never written reads as absent
  (\<open>None\<close>), a slot written with the empty string as present and empty
  (\<open>Some []\<close>).
\<close>

theorem resource_roundtrip:
  "(update_ok os \<and> commit_ok os \<longrightarrow>
      fst (AddResourceData os tbl name s) = True \<and>
      GetResourceData (fst (snd (AddResourceData os tbl name s))) name = Some s) \<and>
   (tbl name = None \<longrightarrow> GetResourceData tbl name = None) \<and>
   (update_ok os \<and> commit_ok os \<longrightarrow>
      GetResourceData (fst (snd (AddResourceData os tbl name []))) name = Some [])"
  by (simp add: GetResourceData_AddResourceData) (simp add: AddResourceData_def GetResourceData_def)

theorem resource_roundtrip_witness:
  "GetResourceData
     (fst (snd (AddResourceData \<lparr>update_ok = True, commit_ok = True\<rparr>
                  Map.empty ''SHIM_ARGS'' [0x2D, 0, 0x61]))) ''SHIM_ARGS''
     = Some [0x2D, 0, 0x61] \<and>
   GetResourceData Map.empty ''SHIM_ARGS'' = None \<and>
   GetResourceData
     (fst (snd (AddResourceData \<lparr>update_ok = True, commit_ok = True\<rparr>
                  Map.empty ''SHIM_ARGS'' []))) ''SHIM_ARGS''
     = Some []"
  using resource_roundtrip
    [of "\<lparr>update_ok = True, commit_ok = True\<rparr>" Map.empty "''SHIM_ARGS''" "[0x2D, 0, 0x61]"]
  by simp

section \<open>Properties of the shim\<close>

lemma L_nonempty [simp]: "L (c # cs) \<noteq> []"
  by (simp add: L_def)

text \<open>What is known of a run that got as far as resolving its settings.\<close>

lemma ShimMain_resolved:
  assumes "ShimMain env cli = Launched r p c \<or> ShimMain env cli = NoOp r c"
  shows "\<not> shimArgOther cli"
    and "\<not> ((shimArgExit cli \<or> isWindowsApp cli) \<and> shimArgWait cli)"
    and "GetResourceData (resources env) ''SHIM_PATH'' = Some (appPath r)"
    and "exists_path env (appPath r)"
    and "\<not> fs_equivalent env (thisExecPath env) (appPath r)"
    and "appArgs r = combine_args (resource_or_empty (resources env) ''SHIM_ARGS'') (calling_args cli)"
    and "working_dir r = select_working_dir (resolve_wdType env cli) (resolve_wdPath env cli)
           (current_path env) (parent_path env (appPath r)) (parent_path env (thisExecPath env))"
    and "wait_mode r = effective_wait (resource_or_empty (resources env) ''SHIM_TYPE'')
           (shimArgWait cli) (shimArgExit cli \<or> isWindowsApp cli)"
  using assms
  by (auto simp: ShimMain_def Let_def split: if_splits option.splits)

lemma ShimMain_launched:
  assumes "ShimMain env cli = Launched r p c"
  shows "p = MakeProcess (create_process env) (appPath r) (appArgs r) (working_dir r)"
    and "\<not> shimArgNoop cli"
    and "c = (if processHandle p \<and> wait_mode r then child_exit_code env
              else if processHandle p then 0 else 1)"
  using assms
  by (auto simp: ShimMain_def Let_def split: if_splits option.splits)

lemma ShimMain_valid:
  assumes "\<not> shimArgOther cli"
    and "\<not> ((shimArgExit cli \<or> isWindowsApp cli) \<and> shimArgWait cli)"
    and "GetResourceData (resources env) ''SHIM_PATH'' = Some path"
    and "exists_path env path"
    and "\<not> fs_equivalent env (thisExecPath env) path"
  shows "(\<exists>r p c. ShimMain env cli = Launched r p c) \<or> (\<exists>r. ShimMain env cli = NoOp r 0)"
  using assms
  by (auto simp: ShimMain_def Let_def split: if_splits option.splits)

lemma resource_or_empty_CONSOLE:
  "(resource_or_empty tbl ''SHIM_TYPE'' = L ''CONSOLE'') =
   (GetResourceData tbl ''SHIM_TYPE'' = Some (L ''CONSOLE''))"
  by (auto simp: resource_or_empty_def L_def split: option.splits)

lemma absent_is_empty:
  assumes n: "name \<in> {''SHIM_ARGS'', ''SHIM_TYPE'', ''WD_TYPE'', ''WD_PATH''}"
  shows "ShimMain (env\<lparr>resources := (resources env)(name := None)\<rparr>) cli =
      ShimMain (env\<lparr>resources := (resources env)(name \<mapsto> [])\<rparr>) cli"
proof -
  let ?a = "(resources env)(name := None)" and ?b = "(resources env)(name \<mapsto> [])"
  have path: "GetResourceData ?a ''SHIM_PATH'' = GetResourceData ?b ''SHIM_PATH''"
    using n by (auto simp: GetResourceData_def)
  have other: "resource_or_empty ?a k = resource_or_empty ?b k" for k
    by (simp add: resource_or_empty_def GetResourceData_def)
  show ?thesis
    by (simp add: ShimMain_def Let_def path other resolve_wdType_def resolve_wdPath_def
          exists_path_def del: fun_upd_apply cong: option.case_cong if_cong)
qed

text \<open>The arguments left for the target are arguments of the command line, in their order.\<close>

lemma subseq_GetArgument: "subseq (snd (GetArgument args pat)) args"
  by (induction args) (auto intro: subseq_Cons')

lemma subseq_GetArgumentAt0: "subseq (snd (GetArgumentAt0 args)) args"
  by (cases args) auto

lemma subseq_GetArgumentValue: "subseq (snd (GetArgumentValue args pat)) args"
  by (induction args pat rule: GetArgumentValue.induct)
     (auto split: option.splits intro: list_emb_Cons)

lemma subseq_ShimArguments: "subseq (snd (ShimArguments args)) args"
proof -
  have flag: "subseq xs args \<Longrightarrow> subseq (snd (GetShimArg xs p)) args" for xs p
    unfolding GetShimArg_def using subseq_GetArgument subseq_order.order_trans by blast
  have val: "subseq xs args \<Longrightarrow> subseq (snd (GetArgumentValue xs p)) args" for xs p
    using subseq_GetArgumentValue subseq_order.order_trans by blast
  have any: "subseq xs args \<Longrightarrow> subseq (snd (GetArgument xs p)) args" for xs p
    using subseq_GetArgument subseq_order.order_trans by blast
  show ?thesis
    unfolding ShimArguments_def Let_def snd_conv
    by (intro any val flag subseq_GetArgumentAt0)
qed

lemma calling_args_ShimArguments:
  "calling_args (fst (ShimArguments args)) = CollapseArguments (snd (ShimArguments args))"
  by (simp add: ShimArguments_def Let_def)

lemma cmd_MakeProcess:
  "path \<noteq> [] \<Longrightarrow>
   cmd (MakeProcess os path (combine_args embedded calling) dir) =
   spec_command_line path embedded calling"
  by (simp add: MakeProcess_def combine_args_def spec_command_line_def)

subsection \<open>The example shim, run\<close>

lemma GetResourceData_with_resource:
  "GetResourceData (with_resource tbl n s) k = (if k = n then Some s else GetResourceData tbl k)"
  by (simp add: with_resource_def GetResourceData_def UpdateResource_def
        take_c_str length_concat_wchar_bytes wstring_of_concat)

lemma GetResourceData_empty: "GetResourceData Map.empty k = None"
  by (simp add: GetResourceData_def)

lemma ex_resources_lookup:
  "GetResourceData ex_resources ''SHIM_PATH'' = Some (L ''C:/App/app.exe'')"
  "GetResourceData ex_resources ''SHIM_TYPE'' = Some (L ''CONSOLE'')"
  "GetResourceData ex_resources ''WD_TYPE'' = Some (L ''CMD'')"
  "GetResourceData ex_resources ''WD_PATH'' = None"
  "GetResourceData ex_resources ''SHIM_ARGS'' = Some (L ''--flag1'')"
  by (simp_all add: ex_resources_def GetResourceData_with_resource GetResourceData_empty)

lemmas ex_shim_defs =
  ShimMain_def ex_shim_env_def resource_or_empty_def resolve_wdType_def resolve_wdPath_def
  exists_path_def ex_files_def ex_dirs_def effective_wait_def combine_args_def
  select_working_dir_def MakeProcess_def ex_parent_path_def ex_UpperCase_def
  GetResourceData_with_resource GetResourceData_empty L_def Let_def

lemmas ex_argument_defs = ShimArguments_def GetShimArg_def L_def towlower_def

lemma ex_arguments_extra:
  "ShimArguments [L ''app.exe'', L ''extra''] =
     (\<lparr> shimArgLog = False, shimArgWait = False, shimArgExit = False,
        isWindowsApp = False, shimArgNoop = False, wdTypeOverride = [],
        wdPathOverride = [], shimArgOther = False, calling_args = L ''extra'' \<rparr>,
      [L ''extra''])"
  by (simp add: ex_argument_defs)

lemma ex_launch:
  "ShimMain (ex_shim_env ex_resources) (fst (ShimArguments [L ''app.exe'', L ''extra''])) =
     Launched
       \<lparr> appPath = L ''C:/App/app.exe'', appArgs = L ''--flag1 extra'',
         working_dir = L ''C:/Work'', wait_mode = True \<rparr>
       \<lparr> cmd = L ''C:/App/app.exe --flag1 extra'',
         workingDirectoryCSTR = Some (L ''C:/Work''), processHandle = True \<rparr>
       7"
  unfolding ex_arguments_extra fst_conv
  by (simp add: ex_shim_defs ex_resources_lookup)

section \<open>The wait mode\<close>

lemma ex_arguments_exit:
  "ShimArguments [L ''app.exe'', L ''--shimgen-exit''] =
     (\<lparr> shimArgLog = False, shimArgWait = False, shimArgExit = True,
        isWindowsApp = False, shimArgNoop = False, wdTypeOverride = [],
        wdPathOverride = [], shimArgOther = False, calling_args = [] \<rparr>, [])"
  by (simp add: ex_argument_defs)

lemma ex_launch_exit:
  "ShimMain (ex_shim_env ex_resources) (fst (ShimArguments [L ''app.exe'', L ''--shimgen-exit''])) =
     Launched
       \<lparr> appPath = L ''C:/App/app.exe'', appArgs = L ''--flag1'',
         working_dir = L ''C:/Work'', wait_mode = False \<rparr>
       \<lparr> cmd = L ''C:/App/app.exe --flag1'',
         workingDirectoryCSTR = Some (L ''C:/Work''), processHandle = True \<rparr>
       0"
  unfolding ex_arguments_exit fst_conv
  by (simp add: ex_shim_defs ex_resources_lookup)

text \<open>
  C3. In every run of the shim that resolves its settings (a launch, or the
  \<^verbatim>\<open>--shim-NoOp\<close> return), the wait mode is: to wait when the embedded
  \<^verbatim>\<open>SHIM_TYPE\<close> is \<^verbatim>\<open>CONSOLE\<close> and neither an exit flag nor the GUI alias was
  given; not to wait when an exit flag or the GUI alias was given, whatever the
  type; and, for a type other than \<^verbatim>\<open>CONSOLE\<close>, to wait exactly when the wait flag
  was given. No run given an exit flag or the GUI alias waits for a child.
\<close>

theorem shim_wait_mode:
  "(ShimMain env cli = Launched r p c \<or> ShimMain env cli = NoOp r c \<longrightarrow>
      (GetResourceData (resources env) ''SHIM_TYPE'' = Some (L ''CONSOLE'') \<and>
         \<not> shimArgExit cli \<and> \<not> isWindowsApp cli \<longrightarrow> wait_mode r) \<and>
      (shimArgExit cli \<or> isWindowsApp cli \<longrightarrow> \<not> wait_mode r) \<and>
      (GetResourceData (resources env) ''SHIM_TYPE'' \<noteq> Some (L ''CONSOLE'') \<longrightarrow>
         wait_mode r = shimArgWait cli)) \<and>
   (shimArgExit cli \<or> isWindowsApp cli \<longrightarrow> \<not> waits_for_child (ShimMain env cli))"
proof -
  have mode: "wait_mode r =
      (if GetResourceData (resources env) ''SHIM_TYPE'' = Some (L ''CONSOLE'')
       then \<not> (shimArgExit cli \<or> isWindowsApp cli) else shimArgWait cli)"
    and noconf: "\<not> ((shimArgExit cli \<or> isWindowsApp cli) \<and> shimArgWait cli)"
    if "ShimMain env cli = Launched r p c \<or> ShimMain env cli = NoOp r c" for r p c
    using ShimMain_resolved(2,8) [OF that]
    by (simp_all add: effective_wait_def resource_or_empty_CONSOLE)
  have nowait: "\<not> waits_for_child (ShimMain env cli)" if "shimArgExit cli \<or> isWindowsApp cli"
  proof (cases "ShimMain env cli")
    case (Launched r' p' c')
    then show ?thesis using mode [of r' p' c'] noconf [of r' p' c'] that by auto
  qed simp_all
  show ?thesis using mode noconf nowait by auto
qed

theorem shim_wait_mode_witness:
  "GetResourceData (resources (ex_shim_env ex_resources)) ''SHIM_TYPE'' = Some (L ''CONSOLE'') \<and>
   waits_for_child
     (ShimMain (ex_shim_env ex_resources) (fst (ShimArguments [L ''app.exe'', L ''extra'']))) \<and>
   shimArgExit (fst (ShimArguments [L ''app.exe'', L ''--shimgen-exit''])) \<and>
   \<not> waits_for_child
     (ShimMain (ex_shim_env ex_resources)
        (fst (ShimArguments [L ''app.exe'', L ''--shimgen-exit''])))"
proof -
  have console:
    "GetResourceData (resources (ex_shim_env ex_resources)) ''SHIM_TYPE'' = Some (L ''CONSOLE'')"
    by (simp add: ex_shim_env_def ex_resources_lookup)
  have plain: "\<not> shimArgExit (fst (ShimArguments [L ''app.exe'', L ''extra'']))"
    "\<not> isWindowsApp (fst (ShimArguments [L ''app.exe'', L ''extra'']))"
    by (simp_all add: ex_arguments_extra)
  have flag: "shimArgExit (fst (ShimArguments [L ''app.exe'', L ''--shimgen-exit'']))"
    by (simp add: ex_arguments_exit)
  show ?thesis
    using console plain flag
      shim_wait_mode [OF, of "ex_shim_env ex_resources"
        "fst (ShimArguments [L ''app.exe'', L ''extra''])" _ _ 7]
      shim_wait_mode [of "ex_shim_env ex_resources"
        "fst (ShimArguments [L ''app.exe'', L ''--shimgen-exit''])"]
    by (simp add: ex_launch)
qed

section \<open>Conflicting flags\<close>

lemma ex_arguments_conflict:
  "ShimArguments [L ''app.exe'', L ''--shimgen-waitforexit'', L ''--ShimGen-GUI'', L ''extra''] =
     (\<lparr> shimArgLog = False, shimArgWait = True, shimArgExit = False,
        isWindowsApp = True, shimArgNoop = False, wdTypeOverride = [],
        wdPathOverride = [], shimArgOther = False, calling_args = L ''extra'' \<rparr>,
      [L ''extra''])"
  by (simp add: ex_argument_defs)

lemma ex_arguments_conflict_help:
  "ShimArguments [L ''app.exe'', L ''--shim-wait'', L ''--shim-exit'', L ''--shim-help''] =
     (\<lparr> shimArgLog = False, shimArgWait = True, shimArgExit = True,
        isWindowsApp = False, shimArgNoop = False, wdTypeOverride = [],
        wdPathOverride = [], shimArgOther = True, calling_args = [] \<rparr>, [])"
  by (simp add: ex_argument_defs)

text \<open>
  C4, as amended. A run of the shim given a wait flag together with an exit flag
  or the GUI alias, in whatever spelling \<open>GetShimArg\<close> accepts, starts no process.
  It returns 1, unless an argument matching \<^verbatim>\<open>--shim.*\<close> was left once the flags
  were taken out: then the help is shown, which ends the process with 0, before
  the two flags are compared.
\<close>

theorem wait_exit_conflict:
  "shimArgWait cli \<and> (shimArgExit cli \<or> isWindowsApp cli) \<Longrightarrow>
   \<not> spawned (ShimMain env cli) \<and>
   ShimMain env cli = (if shimArgOther cli then ShowHelp else Return 1)"
  by (auto simp: ShimMain_def)

theorem wait_exit_conflict_witness:
  "shimArgWait
     (fst (ShimArguments
        [L ''app.exe'', L ''--shimgen-waitforexit'', L ''--ShimGen-GUI'', L ''extra''])) \<and>
   isWindowsApp
     (fst (ShimArguments
        [L ''app.exe'', L ''--shimgen-waitforexit'', L ''--ShimGen-GUI'', L ''extra''])) \<and>
   ShimMain (ex_shim_env ex_resources)
     (fst (ShimArguments
        [L ''app.exe'', L ''--shimgen-waitforexit'', L ''--ShimGen-GUI'', L ''extra''])) =
   Return 1"
proof -
  have flags:
    "shimArgWait
       (fst (ShimArguments
          [L ''app.exe'', L ''--shimgen-waitforexit'', L ''--ShimGen-GUI'', L ''extra''])) \<and>
     (shimArgExit
       (fst (ShimArguments
          [L ''app.exe'', L ''--shimgen-waitforexit'', L ''--ShimGen-GUI'', L ''extra''])) \<or>
      isWindowsApp
       (fst (ShimArguments
          [L ''app.exe'', L ''--shimgen-waitforexit'', L ''--ShimGen-GUI'', L ''extra''])))"
    by (simp add: ex_arguments_conflict)
  show ?thesis
    using wait_exit_conflict [OF flags, of "ex_shim_env ex_resources"]
    by (simp add: ex_arguments_conflict)
qed

text \<open>
  With a wait flag, an exit flag and one more argument matching \<^verbatim>\<open>--shim.*\<close> (the
  command line \<^verbatim>\<open>--shim-wait --shim-exit --shim-help\<close> reads so, see
  \<open>ex_arguments_conflict_help\<close>), the help is shown and the exit code is 0, not 1.
\<close>

theorem wait_exit_conflict_counterexample:
  "exit_code
     (ShimMain (ex_shim_env ex_resources)
        \<lparr> shimArgLog = False, shimArgWait = True, shimArgExit = True,
          isWindowsApp = False, shimArgNoop = False, wdTypeOverride = [],
          wdPathOverride = [], shimArgOther = True, calling_args = [] \<rparr>) = 0"
  by (simp add: ShimMain_def)

section \<open>An invalid target\<close>

lemma ex_arguments_none:
  "ShimArguments [L ''app.exe''] =
     (\<lparr> shimArgLog = False, shimArgWait = False, shimArgExit = False,
        isWindowsApp = False, shimArgNoop = False, wdTypeOverride = [],
        wdPathOverride = [], shimArgOther = False, calling_args = [] \<rparr>, [])"
  by (simp add: ex_argument_defs)

lemma ex_arguments_help:
  "ShimArguments [L ''app.exe'', L ''--shim-help''] =
     (\<lparr> shimArgLog = False, shimArgWait = False, shimArgExit = False,
        isWindowsApp = False, shimArgNoop = False, wdTypeOverride = [],
        wdPathOverride = [], shimArgOther = True, calling_args = [] \<rparr>, [])"
  by (simp add: ex_argument_defs)

text \<open>
  C5, as amended. A run of the shim whose \<^verbatim>\<open>SHIM_PATH\<close> slot is absent, or whose
  embedded target does not exist, or is the shim's own executable, starts no
  process. It returns 1, unless an argument matching \<^verbatim>\<open>--shim.*\<close> was left once
  the flags were taken out: then the help is shown, which ends the process with 0,
  before the slot is read. With a valid target, no such argument and no conflict
  of flags, the run launches the target or makes the \<^verbatim>\<open>--shim-NoOp\<close> return
  with 0, whatever the other slots hold; and each of the slots
  \<^verbatim>\<open>SHIM_ARGS\<close>, \<^verbatim>\<open>SHIM_TYPE\<close>, \<^verbatim>\<open>WD_TYPE\<close> and \<^verbatim>\<open>WD_PATH\<close>, when absent,
  gives the run that the slot holding the empty string gives.
\<close>

theorem invalid_target:
  "(GetResourceData (resources env) ''SHIM_PATH'' = None \<or>
    (\<exists>path. GetResourceData (resources env) ''SHIM_PATH'' = Some path \<and>
       (\<not> exists_path env path \<or> fs_equivalent env (thisExecPath env) path)) \<longrightarrow>
      \<not> spawned (ShimMain env cli) \<and>
      ShimMain env cli = (if shimArgOther cli then ShowHelp else Return 1)) \<and>
   (\<not> shimArgOther cli \<and> \<not> ((shimArgExit cli \<or> isWindowsApp cli) \<and> shimArgWait cli) \<and>
    (\<exists>path. GetResourceData (resources env) ''SHIM_PATH'' = Some path \<and>
       exists_path env path \<and> \<not> fs_equivalent env (thisExecPath env) path) \<longrightarrow>
      (\<exists>r p c. ShimMain env cli = Launched r p c) \<or> (\<exists>r. ShimMain env cli = NoOp r 0)) \<and>
   (name \<in> {''SHIM_ARGS'', ''SHIM_TYPE'', ''WD_TYPE'', ''WD_PATH''} \<longrightarrow>
      ShimMain (env\<lparr>resources := (resources env)(name := None)\<rparr>) cli =
      ShimMain (env\<lparr>resources := (resources env)(name \<mapsto> [])\<rparr>) cli)"
proof (intro conjI impI)
  assume bad: "GetResourceData (resources env) ''SHIM_PATH'' = None \<or>
    (\<exists>path. GetResourceData (resources env) ''SHIM_PATH'' = Some path \<and>
       (\<not> exists_path env path \<or> fs_equivalent env (thisExecPath env) path))"
  then show eq: "ShimMain env cli = (if shimArgOther cli then ShowHelp else Return 1)"
    by (auto simp: ShimMain_def Let_def)
  show "\<not> spawned (ShimMain env cli)" by (simp add: eq)
next
  assume "\<not> shimArgOther cli \<and> \<not> ((shimArgExit cli \<or> isWindowsApp cli) \<and> shimArgWait cli) \<and>
    (\<exists>path. GetResourceData (resources env) ''SHIM_PATH'' = Some path \<and>
       exists_path env path \<and> \<not> fs_equivalent env (thisExecPath env) path)"
  then show "(\<exists>r p c. ShimMain env cli = Launched r p c) \<or> (\<exists>r. ShimMain env cli = NoOp r 0)"
    using ShimMain_valid [of cli env] by blast
next
  assume "name \<in> {''SHIM_ARGS'', ''SHIM_TYPE'', ''WD_TYPE'', ''WD_PATH''}"
  then show "ShimMain (env\<lparr>resources := (resources env)(name := None)\<rparr>) cli =
      ShimMain (env\<lparr>resources := (resources env)(name \<mapsto> [])\<rparr>) cli"
    by (rule absent_is_empty)
qed

theorem invalid_target_witness:
  "ShimMain (ex_shim_env Map.empty) (fst (ShimArguments [L ''app.exe''])) = Return 1 \<and>
   ShimMain (ex_shim_env (with_resource Map.empty ''SHIM_PATH'' (L ''C:/Gone/app.exe'')))
     (fst (ShimArguments [L ''app.exe''])) = Return 1 \<and>
   ShimMain (ex_shim_env (with_resource Map.empty ''SHIM_PATH'' (L ''C:/Out/app.exe'')))
     (fst (ShimArguments [L ''app.exe''])) = Return 1 \<and>
   ShimMain (ex_shim_env (with_resource Map.empty ''SHIM_PATH'' (L ''C:/App/app.exe'')))
     (fst (ShimArguments [L ''app.exe''])) =
   Launched
     \<lparr> appPath = L ''C:/App/app.exe'', appArgs = [],
       working_dir = L ''C:/Out'', wait_mode = False \<rparr>
     \<lparr> cmd = L ''C:/App/app.exe'',
       workingDirectoryCSTR = Some (L ''C:/Out''), processHandle = True \<rparr>
     0"
proof -
  have absent: "GetResourceData (resources (ex_shim_env Map.empty)) ''SHIM_PATH'' = None"
    by (simp add: ex_shim_env_def GetResourceData_empty)
  have gone:
    "\<exists>path. GetResourceData
        (resources (ex_shim_env (with_resource Map.empty ''SHIM_PATH'' (L ''C:/Gone/app.exe''))))
        ''SHIM_PATH'' = Some path \<and>
      (\<not> exists_path (ex_shim_env (with_resource Map.empty ''SHIM_PATH'' (L ''C:/Gone/app.exe''))) path \<or>
       fs_equivalent (ex_shim_env (with_resource Map.empty ''SHIM_PATH'' (L ''C:/Gone/app.exe'')))
         (thisExecPath (ex_shim_env (with_resource Map.empty ''SHIM_PATH'' (L ''C:/Gone/app.exe'')))) path)"
    by (simp add: ex_shim_env_def GetResourceData_with_resource exists_path_def ex_files_def ex_dirs_def L_def)
  have self:
    "\<exists>path. GetResourceData
        (resources (ex_shim_env (with_resource Map.empty ''SHIM_PATH'' (L ''C:/Out/app.exe''))))
        ''SHIM_PATH'' = Some path \<and>
      (\<not> exists_path (ex_shim_env (with_resource Map.empty ''SHIM_PATH'' (L ''C:/Out/app.exe''))) path \<or>
       fs_equivalent (ex_shim_env (with_resource Map.empty ''SHIM_PATH'' (L ''C:/Out/app.exe'')))
         (thisExecPath (ex_shim_env (with_resource Map.empty ''SHIM_PATH'' (L ''C:/Out/app.exe'')))) path)"
    by (simp add: ex_shim_env_def GetResourceData_with_resource)
  have quiet: "\<not> shimArgOther (fst (ShimArguments [L ''app.exe'']))"
    by (simp add: ex_arguments_none)
  have ok: "ShimMain (ex_shim_env (with_resource Map.empty ''SHIM_PATH'' (L ''C:/App/app.exe'')))
     (fst (ShimArguments [L ''app.exe''])) =
   Launched
     \<lparr> appPath = L ''C:/App/app.exe'', appArgs = [],
       working_dir = L ''C:/Out'', wait_mode = False \<rparr>
     \<lparr> cmd = L ''C:/App/app.exe'',
       workingDirectoryCSTR = Some (L ''C:/Out''), processHandle = True \<rparr>
     0"
    unfolding ex_arguments_none fst_conv by (simp add: ex_shim_defs)
  show ?thesis
    using quiet ok
      invalid_target [of "ex_shim_env Map.empty" "fst (ShimArguments [L ''app.exe''])"]
      invalid_target [of "ex_shim_env (with_resource Map.empty ''SHIM_PATH'' (L ''C:/Gone/app.exe''))"
        "fst (ShimArguments [L ''app.exe''])"]
      invalid_target [of "ex_shim_env (with_resource Map.empty ''SHIM_PATH'' (L ''C:/Out/app.exe''))"
        "fst (ShimArguments [L ''app.exe''])"]
      absent gone self
    by simp
qed

text \<open>
  A shim without a target path, given an argument matching \<^verbatim>\<open>--shim.*\<close> (the
  command line \<^verbatim>\<open>--shim-help\<close> reads so, see \<open>ex_arguments_help\<close>), shows the
  help and ends with 0, not 1.
\<close>

theorem invalid_target_counterexample:
  "GetResourceData (resources (ex_shim_env Map.empty)) ''SHIM_PATH'' = None \<and>
   exit_code
     (ShimMain (ex_shim_env Map.empty)
        \<lparr> shimArgLog = False, shimArgWait = False, shimArgExit = False,
          isWindowsApp = False, shimArgNoop = False, wdTypeOverride = [],
          wdPathOverride = [], shimArgOther = True, calling_args = [] \<rparr>) = 0"
  by (simp add: ShimMain_def ex_shim_env_def GetResourceData_empty)

section \<open>The command line of the target\<close>

lemma ex_arguments_mixed:
  "ShimArguments [L ''app.exe'', L ''one'', L ''--shim-log'', L ''two'', L ''--shim-wdtype=app'', L ''three''] =
     (\<lparr> shimArgLog = True, shimArgWait = False, shimArgExit = False,
        isWindowsApp = False, shimArgNoop = False, wdTypeOverride = L ''app'',
        wdPathOverride = [], shimArgOther = False, calling_args = L ''one two three'' \<rparr>,
      [L ''one'', L ''two'', L ''three''])"
  by (simp add: ex_argument_defs)

lemma ex_launch_mixed:
  "ShimMain (ex_shim_env ex_resources)
     (fst (ShimArguments
        [L ''app.exe'', L ''one'', L ''--shim-log'', L ''two'', L ''--shim-wdtype=app'', L ''three''])) =
     Launched
       \<lparr> appPath = L ''C:/App/app.exe'', appArgs = L ''--flag1 one two three'',
         working_dir = L ''C:/App'', wait_mode = True \<rparr>
       \<lparr> cmd = L ''C:/App/app.exe --flag1 one two three'',
         workingDirectoryCSTR = Some (L ''C:/App''), processHandle = True \<rparr>
       7"
  unfolding ex_arguments_mixed fst_conv
  by (simp add: ex_shim_defs ex_resources_lookup)

text \<open>
  C6. When the shim launches, the command line given to process creation is the
  target path, the embedded \<^verbatim>\<open>SHIM_ARGS\<close> and the forwarded arguments
  (\<open>calling_args\<close>), in that order, the empty ones left out and one space between
  two. The forwarded arguments are the collapse of arguments of the caller's
  command line, in their original order.
\<close>

theorem command_line:
  "(ShimMain env cli = Launched r p c \<longrightarrow>
      GetResourceData (resources env) ''SHIM_PATH'' = Some (appPath r) \<and>
      cmd p = spec_command_line (appPath r)
                (resource_or_empty (resources env) ''SHIM_ARGS'') (calling_args cli)) \<and>
   calling_args (fst (ShimArguments args)) = CollapseArguments (snd (ShimArguments args)) \<and>
   subseq (snd (ShimArguments args)) args"
proof (intro conjI impI)
  assume run: "ShimMain env cli = Launched r p c"
  then have res: "ShimMain env cli = Launched r p c \<or> ShimMain env cli = NoOp r c"
    by simp
  show "GetResourceData (resources env) ''SHIM_PATH'' = Some (appPath r)"
    by (rule ShimMain_resolved(3) [OF res])
  have "exists_path env (appPath r)" by (rule ShimMain_resolved(4) [OF res])
  then have nonempty: "appPath r \<noteq> []" by (simp add: exists_path_def)
  show "cmd p = spec_command_line (appPath r)
             (resource_or_empty (resources env) ''SHIM_ARGS'') (calling_args cli)"
    unfolding ShimMain_launched(1) [OF run] ShimMain_resolved(6) [OF res]
    by (rule cmd_MakeProcess [OF nonempty])
next
  show "calling_args (fst (ShimArguments args)) = CollapseArguments (snd (ShimArguments args))"
    by (rule calling_args_ShimArguments)
  show "subseq (snd (ShimArguments args)) args"
    by (rule subseq_ShimArguments)
qed

theorem command_line_witness:
  "ShimMain (ex_shim_env ex_resources)
     (fst (ShimArguments
        [L ''app.exe'', L ''one'', L ''--shim-log'', L ''two'', L ''--shim-wdtype=app'', L ''three''])) =
     Launched
       \<lparr> appPath = L ''C:/App/app.exe'', appArgs = L ''--flag1 one two three'',
         working_dir = L ''C:/App'', wait_mode = True \<rparr>
       \<lparr> cmd = L ''C:/App/app.exe --flag1 one two three'',
         workingDirectoryCSTR = Some (L ''C:/App''), processHandle = True \<rparr>
       7 \<and>
   spec_command_line (L ''C:/App/app.exe'') (L ''--flag1'')
     (CollapseArguments [L ''one'', L ''two'', L ''three'']) =
     L ''C:/App/app.exe --flag1 one two three'' \<and>
   subseq [L ''one'', L ''two'', L ''three'']
     [L ''app.exe'', L ''one'', L ''--shim-log'', L ''two'', L ''--shim-wdtype=app'', L ''three'']"
proof -
  have embedded: "resource_or_empty (resources (ex_shim_env ex_resources)) ''SHIM_ARGS'' =
      L ''--flag1''"
    by (simp add: resource_or_empty_def ex_shim_env_def ex_resources_lookup)
  have left: "snd (ShimArguments
      [L ''app.exe'', L ''one'', L ''--shim-log'', L ''two'', L ''--shim-wdtype=app'', L ''three'']) =
      [L ''one'', L ''two'', L ''three'']"
    "calling_args (fst (ShimArguments
      [L ''app.exe'', L ''one'', L ''--shim-log'', L ''two'', L ''--shim-wdtype=app'', L ''three''])) =
      L ''one two three''"
    by (simp_all add: ex_arguments_mixed)
  show ?thesis
    using ex_launch_mixed
      command_line [of "ex_shim_env ex_resources"
        "fst (ShimArguments
           [L ''app.exe'', L ''one'', L ''--shim-log'', L ''two'', L ''--shim-wdtype=app'',
            L ''three''])"
        "\<lparr> appPath = L ''C:/App/app.exe'', appArgs = L ''--flag1 one two three'',
           working_dir = L ''C:/App'', wait_mode = True \<rparr>"
        "\<lparr> cmd = L ''C:/App/app.exe --flag1 one two three'',
           workingDirectoryCSTR = Some (L ''C:/App''), processHandle = True \<rparr>" 7
        "[L ''app.exe'', L ''one'', L ''--shim-log'', L ''two'', L ''--shim-wdtype=app'',
          L ''three'']"]
    unfolding embedded left
    by simp
qed

section \<open>The working directory\<close>

lemma ex_arguments_bogus:
  "ShimArguments [L ''app.exe'', L ''--shim-wdtype=bogus''] =
     (\<lparr> shimArgLog = False, shimArgWait = False, shimArgExit = False,
        isWindowsApp = False, shimArgNoop = False, wdTypeOverride = L ''bogus'',
        wdPathOverride = [], shimArgOther = False, calling_args = [] \<rparr>, [])"
  by (simp add: ex_argument_defs)

lemma ex_launch_bogus:
  "ShimMain (ex_shim_env ex_resources)
     (fst (ShimArguments [L ''app.exe'', L ''--shim-wdtype=bogus''])) =
     Launched
       \<lparr> appPath = L ''C:/App/app.exe'', appArgs = L ''--flag1'',
         working_dir = L ''C:/Out'', wait_mode = True \<rparr>
       \<lparr> cmd = L ''C:/App/app.exe --flag1'',
         workingDirectoryCSTR = Some (L ''C:/Out''), processHandle = True \<rparr>
       7"
  unfolding ex_arguments_bogus fst_conv
  by (simp add: ex_shim_defs ex_resources_lookup)

text \<open>
  C10. In every run of the shim that resolves its settings, the working directory
  is the current directory for the resolved type \<^verbatim>\<open>CMD\<close>, the directory of the
  target for \<^verbatim>\<open>APP\<close>, the directory of the shim for \<^verbatim>\<open>SHIM\<close>, the resolved path
  for \<^verbatim>\<open>PATH\<close> with a path that is not empty, and the directory of the shim in
  the cases left: \<^verbatim>\<open>PATH\<close> with an empty path, a type that is none of the four,
  and no type at all (the slot absent and no override). The resolved type is the
  override in upper case when there is one, else the embedded \<^verbatim>\<open>WD_TYPE\<close>. No
  value of the type stops the run: with a valid target, no argument left that
  matches \<^verbatim>\<open>--shim.*\<close> and no conflict of flags, it launches the target or makes
  the \<^verbatim>\<open>--shim-NoOp\<close> return.
\<close>

theorem working_directory:
  "(ShimMain env cli = Launched r p c \<or> ShimMain env cli = NoOp r c \<longrightarrow>
     (resolve_wdType env cli = L ''CMD'' \<longrightarrow> working_dir r = current_path env) \<and>
     (resolve_wdType env cli = L ''APP'' \<longrightarrow> working_dir r = parent_path env (appPath r)) \<and>
     (resolve_wdType env cli = L ''SHIM'' \<longrightarrow>
        working_dir r = parent_path env (thisExecPath env)) \<and>
     (resolve_wdType env cli = L ''PATH'' \<and> resolve_wdPath env cli \<noteq> [] \<longrightarrow>
        working_dir r = resolve_wdPath env cli) \<and>
     (resolve_wdType env cli = L ''PATH'' \<and> resolve_wdPath env cli = [] \<longrightarrow>
        working_dir r = parent_path env (thisExecPath env)) \<and>
     (resolve_wdType env cli \<noteq> L ''CMD'' \<and> resolve_wdType env cli \<noteq> L ''APP'' \<and>
      resolve_wdType env cli \<noteq> L ''SHIM'' \<and> resolve_wdType env cli \<noteq> L ''PATH'' \<longrightarrow>
        working_dir r = parent_path env (thisExecPath env)) \<and>
     (GetResourceData (resources env) ''WD_TYPE'' = None \<and> wdTypeOverride cli = [] \<longrightarrow>
        working_dir r = parent_path env (thisExecPath env))) \<and>
   (\<not> shimArgOther cli \<and> \<not> ((shimArgExit cli \<or> isWindowsApp cli) \<and> shimArgWait cli) \<and>
    (\<exists>path. GetResourceData (resources env) ''SHIM_PATH'' = Some path \<and>
       exists_path env path \<and> \<not> fs_equivalent env (thisExecPath env) path) \<longrightarrow>
      (\<exists>r p c. ShimMain env cli = Launched r p c) \<or> (\<exists>r. ShimMain env cli = NoOp r 0))"
proof (intro conjI impI)
  assume "\<not> shimArgOther cli \<and> \<not> ((shimArgExit cli \<or> isWindowsApp cli) \<and> shimArgWait cli) \<and>
    (\<exists>path. GetResourceData (resources env) ''SHIM_PATH'' = Some path \<and>
       exists_path env path \<and> \<not> fs_equivalent env (thisExecPath env) path)"
  then show "(\<exists>r p c. ShimMain env cli = Launched r p c) \<or> (\<exists>r. ShimMain env cli = NoOp r 0)"
    using ShimMain_valid [of cli env] by blast
next
  assume run: "ShimMain env cli = Launched r p c \<or> ShimMain env cli = NoOp r c"
  have absent: "resolve_wdType env cli = []"
    if "GetResourceData (resources env) ''WD_TYPE'' = None" "wdTypeOverride cli = []"
    using that by (simp add: resolve_wdType_def resource_or_empty_def)
  have lits: "L ''CMD'' \<noteq> L ''APP''" "L ''CMD'' \<noteq> L ''SHIM''" "L ''CMD'' \<noteq> L ''PATH''"
    "L ''APP'' \<noteq> L ''SHIM''" "L ''APP'' \<noteq> L ''PATH''" "L ''SHIM'' \<noteq> L ''PATH''"
    by (simp_all add: L_def)
  have dir: "working_dir r = select_working_dir (resolve_wdType env cli) (resolve_wdPath env cli)
      (current_path env) (parent_path env (appPath r)) (parent_path env (thisExecPath env))"
    by (rule ShimMain_resolved(7) [OF run])
  show "resolve_wdType env cli = L ''CMD'' \<Longrightarrow> working_dir r = current_path env"
    and "resolve_wdType env cli = L ''APP'' \<Longrightarrow> working_dir r = parent_path env (appPath r)"
    and "resolve_wdType env cli = L ''SHIM'' \<Longrightarrow>
           working_dir r = parent_path env (thisExecPath env)"
    and "resolve_wdType env cli = L ''PATH'' \<and> resolve_wdPath env cli \<noteq> [] \<Longrightarrow>
           working_dir r = resolve_wdPath env cli"
    and "resolve_wdType env cli = L ''PATH'' \<and> resolve_wdPath env cli = [] \<Longrightarrow>
           working_dir r = parent_path env (thisExecPath env)"
    and "resolve_wdType env cli \<noteq> L ''CMD'' \<and> resolve_wdType env cli \<noteq> L ''APP'' \<and>
         resolve_wdType env cli \<noteq> L ''SHIM'' \<and> resolve_wdType env cli \<noteq> L ''PATH'' \<Longrightarrow>
           working_dir r = parent_path env (thisExecPath env)"
    and "GetResourceData (resources env) ''WD_TYPE'' = None \<and> wdTypeOverride cli = [] \<Longrightarrow>
           working_dir r = parent_path env (thisExecPath env)"
    using absent lits by (auto simp: dir select_working_dir_def)
qed

theorem working_directory_witness:
  "ShimMain (ex_shim_env ex_resources) (fst (ShimArguments [L ''app.exe'', L ''extra''])) =
     Launched
       \<lparr> appPath = L ''C:/App/app.exe'', appArgs = L ''--flag1 extra'',
         working_dir = L ''C:/Work'', wait_mode = True \<rparr>
       \<lparr> cmd = L ''C:/App/app.exe --flag1 extra'',
         workingDirectoryCSTR = Some (L ''C:/Work''), processHandle = True \<rparr>
       7 \<and>
   resolve_wdType (ex_shim_env ex_resources) (fst (ShimArguments [L ''app.exe'', L ''extra''])) =
     L ''CMD'' \<and>
   current_path (ex_shim_env ex_resources) = L ''C:/Work'' \<and>
   ShimMain (ex_shim_env ex_resources)
     (fst (ShimArguments [L ''app.exe'', L ''--shim-wdtype=bogus''])) =
     Launched
       \<lparr> appPath = L ''C:/App/app.exe'', appArgs = L ''--flag1'',
         working_dir = L ''C:/Out'', wait_mode = True \<rparr>
       \<lparr> cmd = L ''C:/App/app.exe --flag1'',
         workingDirectoryCSTR = Some (L ''C:/Out''), processHandle = True \<rparr>
       7 \<and>
   resolve_wdType (ex_shim_env ex_resources)
     (fst (ShimArguments [L ''app.exe'', L ''--shim-wdtype=bogus''])) = L ''BOGUS'' \<and>
   parent_path (ex_shim_env ex_resources) (thisExecPath (ex_shim_env ex_resources)) =
     L ''C:/Out''"
proof -
  have cmd: "resolve_wdType (ex_shim_env ex_resources)
      (fst (ShimArguments [L ''app.exe'', L ''extra''])) = L ''CMD''"
    by (simp add: ex_arguments_extra resolve_wdType_def resource_or_empty_def ex_shim_env_def
          ex_resources_lookup)
  have bogus: "resolve_wdType (ex_shim_env ex_resources)
     (fst (ShimArguments [L ''app.exe'', L ''--shim-wdtype=bogus''])) = L ''BOGUS''"
    unfolding ex_arguments_bogus fst_conv
    by (simp add: resolve_wdType_def ex_shim_env_def ex_UpperCase_def L_def)
  have other: "L ''BOGUS'' \<noteq> L ''CMD''" "L ''BOGUS'' \<noteq> L ''APP''"
    "L ''BOGUS'' \<noteq> L ''SHIM''" "L ''BOGUS'' \<noteq> L ''PATH''"
    by (simp_all add: L_def)
  have dirs: "current_path (ex_shim_env ex_resources) = L ''C:/Work''"
    "parent_path (ex_shim_env ex_resources) (thisExecPath (ex_shim_env ex_resources)) =
       L ''C:/Out''"
    by (simp_all add: ex_shim_env_def ex_parent_path_def L_def)
  show ?thesis
    using cmd bogus other dirs ex_launch ex_launch_bogus
      working_directory [of "ex_shim_env ex_resources"
        "fst (ShimArguments [L ''app.exe'', L ''extra''])"
        "\<lparr> appPath = L ''C:/App/app.exe'', appArgs = L ''--flag1 extra'',
           working_dir = L ''C:/Work'', wait_mode = True \<rparr>"
        "\<lparr> cmd = L ''C:/App/app.exe --flag1 extra'',
           workingDirectoryCSTR = Some (L ''C:/Work''), processHandle = True \<rparr>" 7]
      working_directory [of "ex_shim_env ex_resources"
        "fst (ShimArguments [L ''app.exe'', L ''--shim-wdtype=bogus''])"
        "\<lparr> appPath = L ''C:/App/app.exe'', appArgs = L ''--flag1'',
           working_dir = L ''C:/Out'', wait_mode = True \<rparr>"
        "\<lparr> cmd = L ''C:/App/app.exe --flag1'',
           workingDirectoryCSTR = Some (L ''C:/Out''), processHandle = True \<rparr>" 7]
    by simp
qed

section \<open>Properties of the generator\<close>

lemma build_shim_exit_code:
  "gen_exit_code (build_shim env c lg ft cli ip op et) = c"
  by (simp add: build_shim_def Let_def split: sum.splits prod.splits)

lemma generate_exit_code: "gen_exit_code (generate env c s lg ft cli) = c"
  by (simp add: generate_def validate_and_build_def build_shim_exit_code split: sum.splits prod.splits)

lemma wmain_exit_code: "\<not> cli_help cli \<Longrightarrow> gen_exit_code (wmain env cli) = 1"
  by (simp add: wmain_def Let_def generate_exit_code)





lemma build_shim_paths:
  "build_shim env c lg ft cli ip op et = Built c' lg' b \<Longrightarrow>
   built_input b = ip \<and> built_output b = op"
  by (auto simp: build_shim_def Let_def split: sum.splits prod.splits if_splits)

lemma generate_paths:
  assumes "generate env c s lg ft cli = Built c' lg' b"
  shows "\<exists>outp lge. expand_paths env s (cli_input cli) (cli_output cli) =
            Inr (built_input b, outp, lge) \<and>
          built_output b =
            (if fs_is_directory env outp
             then path_append env outp (filename env (built_input b)) else outp)"
  using assms
  by (auto simp: generate_def validate_and_build_def check_output_def Let_def dest!: build_shim_paths
      split: sum.splits prod.splits if_splits)









subsection \<open>The example generator, run\<close>

lemmas ex_gen_defs =
  wmain_def generate_def validate_and_build_def build_shim_def expand_paths_def check_source_def check_output_def
  select_shim_type_def select_wd_type_def flag_shim_type_def write_resources_def
  AddResourceData_def CopyResources_def UnpackShim_def GetResourceFile_def HIWORD_def
  exists_path_def ex_gen_env_def ex_gen_cli_def ex_files_def ex_dirs_def
  ex_parent_path_def ex_filename_def ex_stem_def ex_is_relative_def ex_UpperCase_def
  Let_def

lemma with_resource_eq: "UpdateResource tbl name (c_str s) (length s * 2) = with_resource tbl name s"
  by (simp add: with_resource_def)

lemma ex_NarrowString_types:
  "ex_NarrowString (L ''CONSOLE'') = ''CONSOLE''"
  "ex_NarrowString (L ''GUI'') = ''GUI''"
  by code_simp+

lemma ex_generate:
  "wmain ex_gen_env ex_gen_cli =
     Built 1
       [(3, ''Added resource: SHIM_PATH = ''), (3, ''Added resource: SHIM_TYPE = ''),
        (3, ''Added resource: WD_TYPE = ''), (3, ''Added resource: SHIM_ARGS = ''),
        (0, '' has successfully created '')]
       \<lparr> built_output = L ''C:/Out/app.exe'', built_input = L ''C:/App/app.exe'',
         built_type = L ''CONSOLE'', built_table = ex_resources \<rparr>"
proof -
  have tbl: "ex_resources =
     UpdateResource (UpdateResource (UpdateResource (UpdateResource Map.empty
       ''SHIM_PATH'' (c_str (L ''C:/App/app.exe'')) (length (L ''C:/App/app.exe'') * 2))
       ''SHIM_TYPE'' (c_str (L ''CONSOLE'')) (length (L ''CONSOLE'') * 2))
       ''WD_TYPE'' (c_str (L ''CMD'')) (length (L ''CMD'') * 2))
       ''SHIM_ARGS'' (c_str (L ''--flag1'')) (length (L ''--flag1'') * 2)"
    by (simp add: ex_resources_def with_resource_def)
  show ?thesis
    unfolding tbl
    by (simp add: ex_gen_defs ex_NarrowString_types [unfolded L_def, simplified] L_def)
qed


section \<open>The exit code of the generator\<close>

text \<open>
  C1. The exit code of the generator. In the example run every validation passes,
  the shim is unpacked, the four resources are written and the line of success is
  logged; the value returned is 1, not 0. (\<open>wmain_exit_code\<close> above: 1 is what
  every run returns that does not show the help.)
\<close>

theorem generator_exit_code_on_success:
  "wmain ex_gen_env ex_gen_cli =
     Built 1
       [(3, ''Added resource: SHIM_PATH = ''), (3, ''Added resource: SHIM_TYPE = ''),
        (3, ''Added resource: WD_TYPE = ''), (3, ''Added resource: SHIM_ARGS = ''),
        (0, '' has successfully created '')]
       \<lparr> built_output = L ''C:/Out/app.exe'', built_input = L ''C:/App/app.exe'',
         built_type = L ''CONSOLE'', built_table = ex_resources \<rparr> \<and>
   gen_exit_code (wmain ex_gen_env ex_gen_cli) = 1"
  by (simp add: ex_generate)

section \<open>The paths expanded\<close>

lemma validate_and_build_paths:
  "validate_and_build env c lg ft cli ip outp = Built c' lg' b \<Longrightarrow>
   built_input b = ip \<and>
   built_output b =
     (if fs_is_directory env outp then path_append env outp (filename env ip) else outp)"
  by (auto simp: validate_and_build_def check_output_def Let_def dest!: build_shim_paths
      split: sum.splits prod.splits if_splits)

lemma ex_expanded_runs:
  "validate_and_build ex_legacy_env 1 [] []
     (ex_gen_cli\<lparr>cli_input := L ''shim_exec.exe'', cli_output := L ''out.exe''\<rparr>)
     (L ''C:/Tools/shim_exec.exe'') (L ''C:/Tools/out.exe'') =
   Built 1
     [(3, ''Added resource: SHIM_PATH = ''), (3, ''Added resource: SHIM_TYPE = ''),
      (3, ''Added resource: WD_TYPE = ''), (3, ''Added resource: SHIM_ARGS = ''),
      (0, '' has successfully created '')]
     \<lparr> built_output = L ''C:/Tools/out.exe'', built_input = L ''C:/Tools/shim_exec.exe'',
       built_type = L ''CONSOLE'',
       built_table =
         with_resource (with_resource (with_resource (with_resource Map.empty
           ''SHIM_PATH'' (L ''C:/Tools/shim_exec.exe''))
           ''SHIM_TYPE'' (L ''CONSOLE''))
           ''WD_TYPE'' (L ''CMD''))
           ''SHIM_ARGS'' (L ''--flag1'') \<rparr>"
  "validate_and_build ex_root_env 1 [] []
     (ex_gen_cli\<lparr>cli_input := L ''App/app.exe'', cli_output := L ''Out/app.exe''\<rparr>)
     (L ''C:/App/app.exe'') (L ''C:/Out/app.exe'') =
   Built 1
     [(3, ''Added resource: SHIM_PATH = ''), (3, ''Added resource: SHIM_TYPE = ''),
      (3, ''Added resource: WD_TYPE = ''), (3, ''Added resource: SHIM_ARGS = ''),
      (0, '' has successfully created '')]
     \<lparr> built_output = L ''C:/Out/app.exe'', built_input = L ''C:/App/app.exe'',
       built_type = L ''CONSOLE'',
       built_table =
         with_resource (with_resource (with_resource (with_resource Map.empty
           ''SHIM_PATH'' (L ''C:/App/app.exe''))
           ''SHIM_TYPE'' (L ''CONSOLE''))
           ''WD_TYPE'' (L ''CMD''))
           ''SHIM_ARGS'' (L ''--flag1'') \<rparr>"
  "validate_and_build ex_out_env 1
     [(2, ''OUTPUT path was not specified, using CURRENT path'')] []
     (ex_gen_cli\<lparr>cli_output := []\<rparr>) (L ''C:/App/app.exe'') (L ''C:/Out'') =
   Built 1
     [(2, ''OUTPUT path was not specified, using CURRENT path''),
      (2, ''OUTPUT filename not specified, using ''),
      (3, ''Added resource: SHIM_PATH = ''), (3, ''Added resource: SHIM_TYPE = ''),
      (3, ''Added resource: WD_TYPE = ''), (3, ''Added resource: SHIM_ARGS = ''),
      (0, '' has successfully created '')]
     \<lparr> built_output = L ''C:/Out/app.exe'', built_input = L ''C:/App/app.exe'',
       built_type = L ''CONSOLE'',
       built_table =
         with_resource (with_resource (with_resource (with_resource Map.empty
           ''SHIM_PATH'' (L ''C:/App/app.exe''))
           ''SHIM_TYPE'' (L ''CONSOLE''))
           ''WD_TYPE'' (L ''CMD''))
           ''SHIM_ARGS'' (L ''--flag1'') \<rparr>"
  unfolding with_resource_def
  by (simp_all add: ex_gen_defs ex_legacy_env_def ex_root_env_def ex_out_env_def
        ex_NarrowString_types [unfolded L_def, simplified] L_def)

text \<open>
  C7. In legacy mode (the generator is named \<^verbatim>\<open>SHIMGEN\<close>) a run with an empty
  output stops with exit code 1; with an output, the run goes on to check and
  build at these paths: the output expanded from the directory of the generator
  when it is relative, and the source expanded from the directory of that output
  when it is relative. In the other mode the run goes on to check and build at
  these paths: the source expanded from the current directory when it is
  relative; the current directory for an empty output, and else the output,
  expanded from the current directory when it is relative. What is then built has
  exactly the source path so found, and the output path so found, the file name
  of the source added when that output is a directory.
\<close>

theorem path_expansion:
  "(UpperCase env (stem env (thisExecPath env)) = L ''SHIMGEN'' \<and> \<not> cli_help cli \<and>
      cli_output cli = [] \<longrightarrow>
      (\<exists>lg. wmain env cli = Stopped 1 lg)) \<and>
   (UpperCase env (stem env (thisExecPath env)) = L ''SHIMGEN'' \<and> \<not> cli_help cli \<and>
      cli_input cli \<noteq> [] \<and> cli_output cli \<noteq> [] \<longrightarrow>
      wmain env cli =
        validate_and_build env 1
          (snd (flag_shim_type True (cli_gui cli) (cli_console cli)) @
           (if cli_rest cli \<noteq> []
            then [(2, ''Additional arguments ignored: ''), (- 2, [])] else []))
          (fst (flag_shim_type True (cli_gui cli) (cli_console cli))) cli
          (if is_relative env (cli_input cli)
           then weakly_canonical env
                  (path_append env
                     (parent_path env
                        (if is_relative env (cli_output cli)
                         then weakly_canonical env
                                (path_append env (parent_path env (thisExecPath env))
                                   (cli_output cli))
                         else cli_output cli))
                     (cli_input cli))
           else cli_input cli)
          (if is_relative env (cli_output cli)
           then weakly_canonical env
                  (path_append env (parent_path env (thisExecPath env)) (cli_output cli))
           else cli_output cli)) \<and>
   (UpperCase env (stem env (thisExecPath env)) \<noteq> L ''SHIMGEN'' \<and> \<not> cli_help cli \<and>
      cli_input cli \<noteq> [] \<longrightarrow>
      wmain env cli =
        validate_and_build env 1
          (snd (flag_shim_type False (cli_gui cli) (cli_console cli)) @
           (if cli_rest cli \<noteq> []
            then [(2, ''Additional arguments ignored: ''), (- 2, [])] else []) @
           (if cli_output cli = []
            then [(2, ''OUTPUT path was not specified, using CURRENT path'')] else []))
          (fst (flag_shim_type False (cli_gui cli) (cli_console cli))) cli
          (if is_relative env (cli_input cli)
           then weakly_canonical env (path_append env (current_path env) (cli_input cli))
           else cli_input cli)
          (if cli_output cli = []
           then (if is_relative env (current_path env)
                 then weakly_canonical env
                        (path_append env (current_path env) (current_path env))
                 else current_path env)
           else if is_relative env (cli_output cli)
           then weakly_canonical env (path_append env (current_path env) (cli_output cli))
           else cli_output cli)) \<and>
   (validate_and_build env c lg ft cli ip outp = Built c' lg' b \<longrightarrow>
      built_input b = ip \<and>
      built_output b =
        (if fs_is_directory env outp then path_append env outp (filename env ip) else outp))"
proof (intro conjI impI)
  assume "UpperCase env (stem env (thisExecPath env)) = L ''SHIMGEN'' \<and> \<not> cli_help cli \<and>
      cli_output cli = []"
  then show "\<exists>lg. wmain env cli = Stopped 1 lg"
    by (simp add: wmain_def generate_def expand_paths_def Let_def)
next
  assume "validate_and_build env c lg ft cli ip outp = Built c' lg' b"
  then show "built_input b = ip"
    and "built_output b =
        (if fs_is_directory env outp then path_append env outp (filename env ip) else outp)"
    using validate_and_build_paths by blast+
qed (simp_all add: wmain_def generate_def expand_paths_def Let_def)

theorem path_expansion_witness:
  "wmain ex_legacy_env
     (ex_gen_cli\<lparr>cli_input := L ''shim_exec.exe'', cli_output := L ''out.exe''\<rparr>) =
   Built 1
     [(3, ''Added resource: SHIM_PATH = ''), (3, ''Added resource: SHIM_TYPE = ''),
      (3, ''Added resource: WD_TYPE = ''), (3, ''Added resource: SHIM_ARGS = ''),
      (0, '' has successfully created '')]
     \<lparr> built_output = L ''C:/Tools/out.exe'', built_input = L ''C:/Tools/shim_exec.exe'',
       built_type = L ''CONSOLE'',
       built_table =
         with_resource (with_resource (with_resource (with_resource Map.empty
           ''SHIM_PATH'' (L ''C:/Tools/shim_exec.exe''))
           ''SHIM_TYPE'' (L ''CONSOLE''))
           ''WD_TYPE'' (L ''CMD''))
           ''SHIM_ARGS'' (L ''--flag1'') \<rparr> \<and>
   wmain ex_root_env
     (ex_gen_cli\<lparr>cli_input := L ''App/app.exe'', cli_output := L ''Out/app.exe''\<rparr>) =
   Built 1
     [(3, ''Added resource: SHIM_PATH = ''), (3, ''Added resource: SHIM_TYPE = ''),
      (3, ''Added resource: WD_TYPE = ''), (3, ''Added resource: SHIM_ARGS = ''),
      (0, '' has successfully created '')]
     \<lparr> built_output = L ''C:/Out/app.exe'', built_input = L ''C:/App/app.exe'',
       built_type = L ''CONSOLE'',
       built_table =
         with_resource (with_resource (with_resource (with_resource Map.empty
           ''SHIM_PATH'' (L ''C:/App/app.exe''))
           ''SHIM_TYPE'' (L ''CONSOLE''))
           ''WD_TYPE'' (L ''CMD''))
           ''SHIM_ARGS'' (L ''--flag1'') \<rparr> \<and>
   wmain ex_out_env (ex_gen_cli\<lparr>cli_output := []\<rparr>) =
   Built 1
     [(2, ''OUTPUT path was not specified, using CURRENT path''),
      (2, ''OUTPUT filename not specified, using ''),
      (3, ''Added resource: SHIM_PATH = ''), (3, ''Added resource: SHIM_TYPE = ''),
      (3, ''Added resource: WD_TYPE = ''), (3, ''Added resource: SHIM_ARGS = ''),
      (0, '' has successfully created '')]
     \<lparr> built_output = L ''C:/Out/app.exe'', built_input = L ''C:/App/app.exe'',
       built_type = L ''CONSOLE'',
       built_table =
         with_resource (with_resource (with_resource (with_resource Map.empty
           ''SHIM_PATH'' (L ''C:/App/app.exe''))
           ''SHIM_TYPE'' (L ''CONSOLE''))
           ''WD_TYPE'' (L ''CMD''))
           ''SHIM_ARGS'' (L ''--flag1'') \<rparr> \<and>
   (\<exists>lg. wmain ex_legacy_env (ex_gen_cli\<lparr>cli_output := []\<rparr>) = Stopped 1 lg)"
proof -
  note env_defs = ex_legacy_env_def ex_root_env_def ex_out_env_def ex_gen_env_def ex_gen_cli_def
    ex_UpperCase_def ex_stem_def ex_filename_def ex_is_relative_def ex_parent_path_def
    flag_shim_type_def L_def
  have legacy:
    "wmain ex_legacy_env
       (ex_gen_cli\<lparr>cli_input := L ''shim_exec.exe'', cli_output := L ''out.exe''\<rparr>) =
     validate_and_build ex_legacy_env 1 [] []
       (ex_gen_cli\<lparr>cli_input := L ''shim_exec.exe'', cli_output := L ''out.exe''\<rparr>)
       (L ''C:/Tools/shim_exec.exe'') (L ''C:/Tools/out.exe'')"
    using path_expansion [of ex_legacy_env
        "ex_gen_cli\<lparr>cli_input := L ''shim_exec.exe'', cli_output := L ''out.exe''\<rparr>"]
    by (simp add: env_defs)
  have root:
    "wmain ex_root_env
       (ex_gen_cli\<lparr>cli_input := L ''App/app.exe'', cli_output := L ''Out/app.exe''\<rparr>) =
     validate_and_build ex_root_env 1 [] []
       (ex_gen_cli\<lparr>cli_input := L ''App/app.exe'', cli_output := L ''Out/app.exe''\<rparr>)
       (L ''C:/App/app.exe'') (L ''C:/Out/app.exe'')"
    using path_expansion [of ex_root_env
        "ex_gen_cli\<lparr>cli_input := L ''App/app.exe'', cli_output := L ''Out/app.exe''\<rparr>"]
    by (simp add: env_defs)
  have out:
    "wmain ex_out_env (ex_gen_cli\<lparr>cli_output := []\<rparr>) =
     validate_and_build ex_out_env 1
       [(2, ''OUTPUT path was not specified, using CURRENT path'')] []
       (ex_gen_cli\<lparr>cli_output := []\<rparr>) (L ''C:/App/app.exe'') (L ''C:/Out'')"
    using path_expansion [of ex_out_env "ex_gen_cli\<lparr>cli_output := []\<rparr>"]
    by (simp add: env_defs)
  have stop: "\<exists>lg. wmain ex_legacy_env (ex_gen_cli\<lparr>cli_output := []\<rparr>) = Stopped 1 lg"
    using path_expansion [of ex_legacy_env "ex_gen_cli\<lparr>cli_output := []\<rparr>"]
    by (simp add: env_defs)
  show ?thesis
    unfolding legacy root out
    using stop by (simp add: ex_expanded_runs)
qed

section \<open>Console and GUI asked for together\<close>



section \<open>The resource writes\<close>









end
